theory Spec2Isabelle
  imports Main
begin

section \<open>Documents and collections\<close>

text \<open>
  The handlers of \<^verbatim>\<open>routes/authRoutes.js\<close> and \<^verbatim>\<open>routes/api/classApi.js\<close> read and
  write six MongoDB collections. A collection is the list of its documents in insertion
  order, a document is a record, an \<^verbatim>\<open>_id\<close> is a natural number and a \<^verbatim>\<open>Date\<close> is
  the number of milliseconds since the epoch. Every handler takes the database and the
  clock reading and returns its response together with the database it leaves behind.
  Exceptions of the database driver and of the session store (the handlers' \<^verbatim>\<open>catch\<close>
  blocks with status 500) are not part of the model, and the caller's identity is the
  one the \<^verbatim>\<open>requireTeacher\<close> / \<^verbatim>\<open>requireStudent\<close> middleware has put into the session.
\<close>

type_synonym oid = nat
type_synonym time = int

datatype req_status = Pending | Approved | Rejected

text \<open>Students and teachers (\<^verbatim>\<open>studentCollection\<close>, \<^verbatim>\<open>teacherCollection\<close>).\<close>

record account =
  a_id :: oid
  a_name :: string
  a_email :: "string option"
  a_enrollment :: "string option"
  a_password :: string
  a_resetPasswordToken :: "string option"
  a_resetPasswordTokenExpires :: "time option"

record classDoc =
  c_id :: oid
  c_name :: string
  c_subject :: string
  c_teacherId :: oid
  c_isActive :: bool
  c_studentCount :: nat
  c_updatedAt :: time

text \<open>Enrollment rows (\<^verbatim>\<open>classStudentCollection\<close>).\<close>

record classStudent =
  cs_id :: oid
  cs_classId :: oid
  cs_studentId :: oid
  cs_studentName :: string
  cs_studentEnrollment :: "string option"
  cs_enrolledAt :: time
  cs_isActive :: bool

record joinCodeDoc =
  jc_id :: oid
  jc_classId :: oid
  jc_teacherId :: oid
  jc_className :: string
  jc_classSubject :: string
  jc_teacherName :: string
  jc_joinCode :: string
  jc_expiresAt :: time
  jc_isActive :: bool
  jc_usageCount :: nat
  jc_maxUsage :: nat

text \<open>
  Join requests. The copies of class name, subject and teacher name, the IP address and
  the user agent that the handler also stores are display data and are left out.
\<close>

record joinRequest =
  jr_id :: oid
  jr_classId :: oid
  jr_studentId :: oid
  jr_studentName :: string
  jr_studentEnrollment :: "string option"
  jr_joinCode :: string
  jr_teacherId :: oid
  jr_status :: req_status
  jr_processedAt :: "time option"
  jr_processedBy :: "oid option"

record db =
  students :: "account list"
  teachers :: "account list"
  classes :: "classDoc list"
  classStudents :: "classStudent list"
  joinCodes :: "joinCodeDoc list"
  joinRequests :: "joinRequest list"

subsection \<open>Collection operations\<close>

text \<open>\<^verbatim>\<open>findOne\<close> answers the first document that matches the filter.\<close>

definition findOne :: "('a \<Rightarrow> bool) \<Rightarrow> 'a list \<Rightarrow> 'a option" where
  "findOne p xs = List.find p xs"

text \<open>\<^verbatim>\<open>updateOne\<close>: the first matching document is changed, no other.\<close>

fun updateOne :: "('a \<Rightarrow> bool) \<Rightarrow> ('a \<Rightarrow> 'a) \<Rightarrow> 'a list \<Rightarrow> 'a list" where
  "updateOne p f [] = []"
| "updateOne p f (x # xs) = (if p x then f x # xs else x # updateOne p f xs)"

definition findByIdAndUpdate :: "('a \<Rightarrow> oid) \<Rightarrow> oid \<Rightarrow> ('a \<Rightarrow> 'a) \<Rightarrow> 'a list \<Rightarrow> 'a list" where
  "findByIdAndUpdate ident i f xs = updateOne (\<lambda>x. ident x = i) f xs"

definition updateMany :: "('a \<Rightarrow> bool) \<Rightarrow> ('a \<Rightarrow> 'a) \<Rightarrow> 'a list \<Rightarrow> 'a list" where
  "updateMany p f xs = map (\<lambda>x. if p x then f x else x) xs"

fun deleteOne :: "('a \<Rightarrow> bool) \<Rightarrow> 'a list \<Rightarrow> 'a list" where
  "deleteOne p [] = []"
| "deleteOne p (x # xs) = (if p x then xs else x # deleteOne p xs)"

definition countDocuments :: "('a \<Rightarrow> bool) \<Rightarrow> 'a list \<Rightarrow> nat" where
  "countDocuments p xs = length (filter p xs)"

text \<open>
  \<^verbatim>\<open>create\<close> gives the new document an \<^verbatim>\<open>_id\<close> that no document of the collection
  has: here the successor of the largest one.
\<close>

definition new_id :: "oid list \<Rightarrow> oid" where
  "new_id ids = Suc (fold max ids 0)"

subsection \<open>Strings\<close>

text \<open>
  \<^verbatim>\<open>toUpperCase\<close>, \<^verbatim>\<open>toLowerCase\<close> and \<^verbatim>\<open>trim\<close> of JavaScript, on ASCII text (join
  codes, enrollment numbers and e-mail addresses): the letters a to z and A to Z are
  mapped, and the six ASCII blanks are trimmed. On other text JavaScript does more
  (Unicode case mapping, U+00A0 and further white space), which is not modelled. The
  general theorems below use nothing of these functions but their names; only the
  examples compute with them, on ASCII strings.
\<close>

definition upper_char :: "char \<Rightarrow> char" where
  "upper_char c =
     (case map_of (zip ''abcdefghijklmnopqrstuvwxyz'' ''ABCDEFGHIJKLMNOPQRSTUVWXYZ'') c of
        Some u \<Rightarrow> u | None \<Rightarrow> c)"

definition lower_char :: "char \<Rightarrow> char" where
  "lower_char c =
     (case map_of (zip ''ABCDEFGHIJKLMNOPQRSTUVWXYZ'' ''abcdefghijklmnopqrstuvwxyz'') c of
        Some l \<Rightarrow> l | None \<Rightarrow> c)"

definition toUpperCase :: "string \<Rightarrow> string" where
  "toUpperCase s = map upper_char s"

definition toLowerCase :: "string \<Rightarrow> string" where
  "toLowerCase s = map lower_char s"

definition is_space :: "char \<Rightarrow> bool" where
  "is_space c = (c \<in> set [CHR '' '', CHR 0x09, CHR 0x0A, CHR 0x0B, CHR 0x0C, CHR 0x0D])"

definition trim :: "string \<Rightarrow> string" where
  "trim s = rev (dropWhile is_space (rev (dropWhile is_space s)))"

section \<open>Responses\<close>

text \<open>
  The handlers answer a failure with a status and a message and nothing else; each
  constructor stands for one such answer:
  \<^item> \<open>InvalidAction\<close>: 400, Invalid action. Must be "approve" or "reject".
  \<^item> \<open>ClassNotFound\<close>: 404, Class not found or access denied.
  \<^item> \<open>RequestNotFound\<close>: 404, Join request not found or already processed.
  \<^item> \<open>StudentAlreadyEnrolled\<close>: 400, Student is already enrolled in this class.
  \<^item> \<open>InvalidOrExpiredCode\<close>: 404, Invalid or expired join code.
  \<^item> \<open>Expired\<close>: 400, This join code has expired.
  \<^item> \<open>UsageExceeded\<close>: 400, This join code has reached its usage limit.
  \<^item> \<open>AlreadyEnrolled\<close>: 400, You are already enrolled in this class.
  \<^item> \<open>RequestPending\<close>: 400, You already have a pending request for this class.
  \<^item> \<open>JoinCodeRequired\<close>: 400, Join code is required.
  \<^item> \<open>StudentRecordNotFound\<close>: 404, Student record not found.
  \<^item> \<open>InvalidExpiredOrOverused\<close>: 400, Invalid, expired, or overused join code.
\<close>

datatype error =
    InvalidAction
  | ClassNotFound
  | RequestNotFound
  | StudentAlreadyEnrolled
  | InvalidOrExpiredCode
  | Expired
  | UsageExceeded
  | AlreadyEnrolled
  | RequestPending
  | JoinCodeRequired
  | StudentRecordNotFound
  | InvalidExpiredOrOverused

fun http_status :: "error \<Rightarrow> nat" where
  "http_status ClassNotFound = 404"
| "http_status RequestNotFound = 404"
| "http_status InvalidOrExpiredCode = 404"
| "http_status StudentRecordNotFound = 404"
| "http_status _ = 400"

section \<open>Join codes\<close>

text \<open>
  Modelled from the spec: the schema methods \<^verbatim>\<open>isExpired\<close> and \<^verbatim>\<open>canBeUsed\<close> of a
  join code live in \<^verbatim>\<open>mongodb.js\<close>, which is not among the sources. The spec: a code
  is expired when validated after its expiry timestamp, and is used up when its usage
  counter is greater than or equal to its cap.
\<close>

definition isExpired :: "time \<Rightarrow> joinCodeDoc \<Rightarrow> bool" where
  "isExpired now d = (jc_expiresAt d < now)"

definition canBeUsed :: "joinCodeDoc \<Rightarrow> bool" where
  "canBeUsed d = (jc_usageCount d < jc_maxUsage d)"

text \<open>
  Modelled from the spec: the static \<^verbatim>\<open>generateUniqueCode\<close> of \<^verbatim>\<open>mongodb.js\<close> is a
  collision retry loop that answers a code no currently active join code carries. The
  random candidates it draws are the list \<open>cands\<close>; when every candidate collides the
  loop has not answered.
\<close>

fun generateUniqueCode :: "string list \<Rightarrow> joinCodeDoc list \<Rightarrow> string option" where
  "generateUniqueCode [] docs = None"
| "generateUniqueCode (c # cs) docs =
     (if list_ex (\<lambda>d. jc_joinCode d = c \<and> jc_isActive d) docs
      then generateUniqueCode cs docs else Some c)"

record gen_ok =
  g_joinCode :: string
  g_expiresAt :: time
  g_className :: string
  g_classSubject :: string

text \<open>
  \<^verbatim>\<open>POST /:classId/generate-join-code\<close>. The result is \<open>None\<close> when the retry loop
  of \<open>generateUniqueCode\<close> has not answered.
\<close>

definition generate_join_code ::
  "db \<Rightarrow> time \<Rightarrow> string list \<Rightarrow> oid \<Rightarrow> string \<Rightarrow> oid \<Rightarrow> (error + gen_ok) option \<times> db" where
  "generate_join_code s now cands teacherId teacherName classId =
    (case findOne (\<lambda>c. c_id c = classId \<and> c_teacherId c = teacherId \<and> c_isActive c) (classes s) of
       None \<Rightarrow> (Some (Inl ClassNotFound), s)
     | Some classDoc \<Rightarrow>
        (let deactivated = updateMany (\<lambda>d. jc_classId d = classId \<and> jc_isActive d)
                              (\<lambda>d. d\<lparr>jc_isActive := False\<rparr>) (joinCodes s);
             s1 = s\<lparr>joinCodes := deactivated\<rparr>
         in case generateUniqueCode cands deactivated of
              None \<Rightarrow> (None, s1)
            | Some joinCode \<Rightarrow>
               (let expiresAt = now + 10 * 60 * 1000;
                    newJoinCode = \<lparr>jc_id = new_id (map jc_id deactivated),
                                   jc_classId = classId,
                                   jc_teacherId = teacherId,
                                   jc_className = c_name classDoc,
                                   jc_classSubject = c_subject classDoc,
                                   jc_teacherName = teacherName,
                                   jc_joinCode = joinCode,
                                   jc_expiresAt = expiresAt,
                                   jc_isActive = True,
                                   jc_usageCount = 0,
                                   jc_maxUsage = 50\<rparr>
                in (Some (Inr \<lparr>g_joinCode = joinCode, g_expiresAt = expiresAt,
                               g_className = c_name classDoc,
                               g_classSubject = c_subject classDoc\<rparr>),
                    s1\<lparr>joinCodes := deactivated @ [newJoinCode]\<rparr>))))"

record classInfo =
  ci_classId :: oid
  ci_className :: string
  ci_classSubject :: string
  ci_teacherName :: string
  ci_expiresAt :: time
  ci_remainingTime :: int

text \<open>\<^verbatim>\<open>GET /validate-join-code/:code\<close>.\<close>

definition validate_join_code :: "db \<Rightarrow> time \<Rightarrow> string \<Rightarrow> oid \<Rightarrow> (error + classInfo) \<times> db" where
  "validate_join_code s now code studentId =
    (let joinCode = toUpperCase code in
     case findOne (\<lambda>d. jc_joinCode d = joinCode \<and> jc_isActive d) (joinCodes s) of
       None \<Rightarrow> (Inl InvalidOrExpiredCode, s)
     | Some codeDoc \<Rightarrow>
        if isExpired now codeDoc then
          (Inl Expired,
           s\<lparr>joinCodes := findByIdAndUpdate jc_id (jc_id codeDoc)
                              (\<lambda>d. d\<lparr>jc_isActive := False\<rparr>) (joinCodes s)\<rparr>)
        else if \<not> canBeUsed codeDoc then (Inl UsageExceeded, s)
        else
          (case findOne (\<lambda>e. cs_classId e = jc_classId codeDoc \<and> cs_studentId e = studentId
                               \<and> cs_isActive e) (classStudents s) of
             Some existingEnrollment \<Rightarrow> (Inl AlreadyEnrolled, s)
           | None \<Rightarrow>
              (case findOne (\<lambda>r. jr_classId r = jc_classId codeDoc \<and> jr_studentId r = studentId
                                   \<and> jr_status r = Pending) (joinRequests s) of
                 Some existingRequest \<Rightarrow> (Inl RequestPending, s)
               | None \<Rightarrow>
                  (Inr \<lparr>ci_classId = jc_classId codeDoc,
                        ci_className = jc_className codeDoc,
                        ci_classSubject = jc_classSubject codeDoc,
                        ci_teacherName = jc_teacherName codeDoc,
                        ci_expiresAt = jc_expiresAt codeDoc,
                        ci_remainingTime = max 0 ((jc_expiresAt codeDoc - now) div 1000)\<rparr>,
                   s))))"

section \<open>Join requests\<close>

datatype join_ok = Rejoined | RequestSent oid

text \<open>
  The reactivation branch of \<^verbatim>\<open>POST /join-request\<close>: the enrollment row found is
  switched on again, the student's pending and rejected requests for the class become
  approved, the usage count of the code goes up by one and the student counter of the
  class is counted afresh.
\<close>

definition reactivate_enrollment ::
  "db \<Rightarrow> time \<Rightarrow> oid \<Rightarrow> string \<Rightarrow> account \<Rightarrow> joinCodeDoc \<Rightarrow> classStudent \<Rightarrow> db" where
  "reactivate_enrollment s now studentId studentName student codeDoc entry =
    (let s1 = s\<lparr>classStudents := findByIdAndUpdate cs_id (cs_id entry)
                    (\<lambda>e. e\<lparr>cs_isActive := True, cs_enrolledAt := now,
                             cs_studentName := studentName,
                             cs_studentEnrollment := a_enrollment student\<rparr>)
                    (classStudents s)\<rparr>;
         s2 = s1\<lparr>joinRequests := updateMany
                    (\<lambda>r. jr_classId r = jc_classId codeDoc \<and> jr_studentId r = studentId
                          \<and> (jr_status r = Pending \<or> jr_status r = Rejected))
                    (\<lambda>r. r\<lparr>jr_status := Approved, jr_processedAt := Some now\<rparr>)
                    (joinRequests s1)\<rparr>;
         s3 = s2\<lparr>joinCodes := findByIdAndUpdate jc_id (jc_id codeDoc)
                    (\<lambda>d. d\<lparr>jc_usageCount := jc_usageCount d + 1\<rparr>) (joinCodes s2)\<rparr>;
         totalActiveStudents = countDocuments
                    (\<lambda>e. cs_classId e = jc_classId codeDoc \<and> cs_isActive e) (classStudents s3)
     in s3\<lparr>classes := findByIdAndUpdate c_id (jc_classId codeDoc)
                    (\<lambda>c. c\<lparr>c_studentCount := totalActiveStudents, c_updatedAt := now\<rparr>)
                    (classes s3)\<rparr>)"

text \<open>
  Creation of the request and the increment of the usage count that follows it.
  Modelled from the spec: the schema of a join request (its defaults) is in
  \<^verbatim>\<open>mongodb.js\<close>, not among the sources; the spec has a new request start in status
  pending, unprocessed.
\<close>

definition insert_join_request ::
  "db \<Rightarrow> oid \<Rightarrow> string \<Rightarrow> account \<Rightarrow> string \<Rightarrow> joinCodeDoc \<Rightarrow> (error + join_ok) \<times> db" where
  "insert_join_request s studentId studentName student joinCode codeDoc =
    (let joinRequest = \<lparr>jr_id = new_id (map jr_id (joinRequests s)),
                         jr_classId = jc_classId codeDoc,
                         jr_studentId = studentId,
                         jr_studentName = studentName,
                         jr_studentEnrollment = a_enrollment student,
                         jr_joinCode = toUpperCase joinCode,
                         jr_teacherId = jc_teacherId codeDoc,
                         jr_status = Pending,
                         jr_processedAt = None,
                         jr_processedBy = None\<rparr>;
         s1 = s\<lparr>joinRequests := joinRequests s @ [joinRequest]\<rparr>;
         s2 = s1\<lparr>joinCodes := findByIdAndUpdate jc_id (jc_id codeDoc)
                    (\<lambda>d. d\<lparr>jc_usageCount := jc_usageCount d + 1\<rparr>) (joinCodes s1)\<rparr>
     in (Inr (RequestSent (jr_id joinRequest)), s2))"

text \<open>\<^verbatim>\<open>POST /join-request\<close>; the body's \<^verbatim>\<open>joinCode\<close> may be absent.\<close>

definition join_request ::
  "db \<Rightarrow> time \<Rightarrow> oid \<Rightarrow> string \<Rightarrow> string option \<Rightarrow> (error + join_ok) \<times> db" where
  "join_request s now studentId studentName body_joinCode =
    (case body_joinCode of
       None \<Rightarrow> (Inl JoinCodeRequired, s)
     | Some joinCode \<Rightarrow>
        if joinCode = [] then (Inl JoinCodeRequired, s)
        else
          (case findOne (\<lambda>a. a_id a = studentId) (students s) of
             None \<Rightarrow> (Inl StudentRecordNotFound, s)
           | Some student \<Rightarrow>
              (case findOne (\<lambda>d. jc_joinCode d = toUpperCase joinCode \<and> jc_isActive d)
                      (joinCodes s) of
                 None \<Rightarrow> (Inl InvalidExpiredOrOverused, s)
               | Some codeDoc \<Rightarrow>
                  if isExpired now codeDoc \<or> \<not> canBeUsed codeDoc
                  then (Inl InvalidExpiredOrOverused, s)
                  else
                    (case findOne (\<lambda>e. cs_classId e = jc_classId codeDoc
                                         \<and> cs_studentId e = studentId) (classStudents s) of
                       Some existingClassStudentEntry \<Rightarrow>
                        if cs_isActive existingClassStudentEntry
                        then (Inl AlreadyEnrolled, s)
                        else (Inr Rejoined,
                              reactivate_enrollment s now studentId studentName student
                                codeDoc existingClassStudentEntry)
                     | None \<Rightarrow>
                        (case findOne (\<lambda>r. jr_classId r = jc_classId codeDoc
                                             \<and> jr_studentId r = studentId) (joinRequests s) of
                           None \<Rightarrow>
                            insert_join_request s studentId studentName student joinCode codeDoc
                         | Some existingJoinRequest \<Rightarrow>
                            if jr_status existingJoinRequest = Pending
                            then (Inl RequestPending, s)
                            else if jr_status existingJoinRequest = Rejected
                            then insert_join_request
                                   (s\<lparr>joinRequests :=
                                        deleteOne (\<lambda>r. jr_id r = jr_id existingJoinRequest)
                                          (joinRequests s)\<rparr>)
                                   studentId studentName student joinCode codeDoc
                            else insert_join_request s studentId studentName student
                                   joinCode codeDoc)))))"

text \<open>
  Modelled from the spec: the document methods \<^verbatim>\<open>approve\<close> and \<^verbatim>\<open>reject\<close> of a join
  request are in \<^verbatim>\<open>mongodb.js\<close>, not among the sources. The spec: they mark the
  request approved, respectively rejected (with a reason, not kept here), and record
  the processing timestamp and actor. The document is saved under its \<^verbatim>\<open>_id\<close>.
\<close>

definition approve :: "db \<Rightarrow> time \<Rightarrow> oid \<Rightarrow> joinRequest \<Rightarrow> db" where
  "approve s now teacherId r =
    s\<lparr>joinRequests := findByIdAndUpdate jr_id (jr_id r)
          (\<lambda>d. d\<lparr>jr_status := Approved, jr_processedAt := Some now,
                  jr_processedBy := Some teacherId\<rparr>) (joinRequests s)\<rparr>"

definition reject :: "db \<Rightarrow> time \<Rightarrow> oid \<Rightarrow> joinRequest \<Rightarrow> db" where
  "reject s now teacherId r =
    s\<lparr>joinRequests := findByIdAndUpdate jr_id (jr_id r)
          (\<lambda>d. d\<lparr>jr_status := Rejected, jr_processedAt := Some now,
                  jr_processedBy := Some teacherId\<rparr>) (joinRequests s)\<rparr>"

datatype resolve_ok = ActionApproved | ActionRejected

text \<open>
  What the approve branch does once the enrollment row is in place: the request is
  approved, the active rows of the class are counted and the count is stored.
\<close>

definition finish_approval :: "db \<Rightarrow> time \<Rightarrow> oid \<Rightarrow> oid \<Rightarrow> joinRequest \<Rightarrow> db" where
  "finish_approval s now teacherId classId r =
    (let s1 = approve s now teacherId r;
         totalActiveStudents = countDocuments
            (\<lambda>e. cs_classId e = classId \<and> cs_isActive e) (classStudents s1)
     in s1\<lparr>classes := findByIdAndUpdate c_id classId
            (\<lambda>c. c\<lparr>c_studentCount := totalActiveStudents, c_updatedAt := now\<rparr>)
            (classes s1)\<rparr>)"

text \<open>\<^verbatim>\<open>POST /:classId/join-requests/:requestId/:action\<close>.\<close>

definition resolve_join_request ::
  "db \<Rightarrow> time \<Rightarrow> oid \<Rightarrow> oid \<Rightarrow> oid \<Rightarrow> string \<Rightarrow> (error + resolve_ok) \<times> db" where
  "resolve_join_request s now teacherId classId requestId action =
    (if action \<noteq> ''approve'' \<and> action \<noteq> ''reject'' then (Inl InvalidAction, s)
     else
       (case findOne (\<lambda>c. c_id c = classId \<and> c_teacherId c = teacherId \<and> c_isActive c)
               (classes s) of
          None \<Rightarrow> (Inl ClassNotFound, s)
        | Some classDoc \<Rightarrow>
           (case findOne (\<lambda>r. jr_id r = requestId \<and> jr_classId r = classId
                               \<and> jr_status r = Pending) (joinRequests s) of
              None \<Rightarrow> (Inl RequestNotFound, s)
            | Some joinRequest \<Rightarrow>
               if action = ''approve'' then
                 (case findOne (\<lambda>e. cs_classId e = classId
                                     \<and> cs_studentId e = jr_studentId joinRequest)
                         (classStudents s) of
                    Some existingEnrollment \<Rightarrow>
                     if cs_isActive existingEnrollment
                     then (Inl StudentAlreadyEnrolled, approve s now teacherId joinRequest)
                     else (Inr ActionApproved,
                           finish_approval
                             (s\<lparr>classStudents := findByIdAndUpdate cs_id (cs_id existingEnrollment)
                                   (\<lambda>e. e\<lparr>cs_isActive := True, cs_enrolledAt := now,
                                           cs_studentName := jr_studentName joinRequest,
                                           cs_studentEnrollment := jr_studentEnrollment joinRequest\<rparr>)
                                   (classStudents s)\<rparr>)
                             now teacherId classId joinRequest)
                  | None \<Rightarrow>
                     (Inr ActionApproved,
                      finish_approval
                        (s\<lparr>classStudents := classStudents s @
                              [\<lparr>cs_id = new_id (map cs_id (classStudents s)),
                                cs_classId = classId,
                                cs_studentId = jr_studentId joinRequest,
                                cs_studentName = jr_studentName joinRequest,
                                cs_studentEnrollment = jr_studentEnrollment joinRequest,
                                cs_enrolledAt = now,
                                cs_isActive = True\<rparr>]\<rparr>)
                        now teacherId classId joinRequest))
               else (Inr ActionRejected, reject s now teacherId joinRequest))))"

section \<open>Accounts\<close>

text \<open>
  The handlers of \<^verbatim>\<open>routes/authRoutes.js\<close> that write and compare passwords. The
  request bodies are the ones the validation middleware (\<^verbatim>\<open>validateRegistration\<close>,
  \<^verbatim>\<open>validateLogin\<close>, not among the sources) has let through; a field that may be
  absent is an option. Of a stored account the name, the e-mail address, the enrollment
  number, the password and the reset token are modelled; \<^verbatim>\<open>firstName\<close> and
  \<^verbatim>\<open>lastName\<close>, cut from the name, are not. The answers:
  \<^item> \<open>EmailExists\<close>: User with this email already exists.
  \<^item> \<open>EnrollmentExists\<close>: User with this enrollment number already exists.
  \<^item> \<open>NoUserWithEmail\<close>: No user found with this email.
  \<^item> \<open>NoUserWithEnrollment\<close>: No user found with this enrollment number.
  \<^item> \<open>WrongPassword\<close>: Wrong password.
  \<^item> \<open>InvalidResetLink\<close>: The password reset link is invalid or has expired.
  \<^item> \<open>PasswordsDoNotMatch\<close>: Passwords do not match.
  \<^item> \<open>PasswordTooShort\<close>: Password must be at least 6 characters long.
  \<^item> \<open>UnexpectedError\<close>: the \<^verbatim>\<open>catch\<close> block, reached when a method is called on an
    absent field.
\<close>

datatype auth_error =
    EmailExists
  | EnrollmentExists
  | NoUserWithEmail
  | NoUserWithEnrollment
  | WrongPassword
  | InvalidResetLink
  | PasswordsDoNotMatch
  | PasswordTooShort
  | UnexpectedError

record session =
  se_userId :: oid
  se_userName :: string
  se_userType :: string

record signup_body =
  sb_userType :: string
  sb_name :: string
  sb_email :: "string option"
  sb_enrollment :: "string option"
  sb_password :: string

text \<open>\<^verbatim>\<open>POST /signup\<close>.\<close>

definition signup :: "db \<Rightarrow> signup_body \<Rightarrow> (auth_error + session) \<times> db" where
  "signup s body =
    (if sb_userType body = ''teacher'' then
       (case findOne (\<lambda>a. a_email a = sb_email body) (teachers s) of
          Some existingTeacher \<Rightarrow> (Inl EmailExists, s)
        | None \<Rightarrow>
           (case sb_email body of
              None \<Rightarrow> (Inl UnexpectedError, s)
            | Some email \<Rightarrow>
               (let teacherData = \<lparr>a_id = new_id (map a_id (teachers s)),
                                   a_name = trim (sb_name body),
                                   a_email = Some (trim (toLowerCase email)),
                                   a_enrollment = None,
                                   a_password = sb_password body,
                                   a_resetPasswordToken = None,
                                   a_resetPasswordTokenExpires = None\<rparr>;
                    s1 = s\<lparr>teachers := teachers s @ [teacherData]\<rparr>
                in case findOne (\<lambda>a. a_email a = Some (trim (toLowerCase email))) (teachers s1) of
                     None \<Rightarrow> (Inl UnexpectedError, s1)
                   | Some newTeacher \<Rightarrow>
                      (Inr \<lparr>se_userId = a_id newTeacher, se_userName = a_name newTeacher,
                            se_userType = sb_userType body\<rparr>, s1))))
     else
       (case sb_enrollment body of
          None \<Rightarrow> (Inl UnexpectedError, s)
        | Some enrollment \<Rightarrow>
           (let upperCaseEnrollment = toUpperCase enrollment in
            case findOne (\<lambda>a. a_enrollment a = Some upperCaseEnrollment) (students s) of
              Some existingStudent \<Rightarrow> (Inl EnrollmentExists, s)
            | None \<Rightarrow>
               (let studentData = \<lparr>a_id = new_id (map a_id (students s)),
                                   a_name = trim (sb_name body),
                                   a_email = (case sb_email body of
                                                None \<Rightarrow> None
                                              | Some email \<Rightarrow>
                                                 if email \<noteq> [] \<and> trim email \<noteq> []
                                                 then Some (trim (toLowerCase email)) else None),
                                   a_enrollment = Some upperCaseEnrollment,
                                   a_password = sb_password body,
                                   a_resetPasswordToken = None,
                                   a_resetPasswordTokenExpires = None\<rparr>;
                    s1 = s\<lparr>students := students s @ [studentData]\<rparr>
                in case findOne (\<lambda>a. a_enrollment a = Some upperCaseEnrollment) (students s1) of
                     None \<Rightarrow> (Inl UnexpectedError, s1)
                   | Some newStudent \<Rightarrow>
                      (Inr \<lparr>se_userId = a_id newStudent, se_userName = a_name newStudent,
                            se_userType = sb_userType body\<rparr>, s1)))))"

record login_body =
  lb_userType :: string
  lb_email :: "string option"
  lb_enrollment :: "string option"
  lb_password :: string

text \<open>
  The account that \<^verbatim>\<open>POST /login\<close> looks up: a teacher by the lower-cased, trimmed
  e-mail address, a student by the upper-cased enrollment number (an absent or empty
  number is looked up as \<^verbatim>\<open>null\<close>).
\<close>

definition login_user :: "db \<Rightarrow> login_body \<Rightarrow> auth_error + account" where
  "login_user s body =
    (if lb_userType body = ''teacher'' then
       (case lb_email body of
          None \<Rightarrow> Inl UnexpectedError
        | Some email \<Rightarrow>
           (case findOne (\<lambda>a. a_email a = Some (trim (toLowerCase email))) (teachers s) of
              None \<Rightarrow> Inl NoUserWithEmail
            | Some user \<Rightarrow> Inr user))
     else
       (let upperCaseEnrollment =
              (case lb_enrollment body of
                 None \<Rightarrow> None
               | Some enrollment \<Rightarrow> if enrollment = [] then None else Some (toUpperCase enrollment))
        in case findOne (\<lambda>a. a_enrollment a = upperCaseEnrollment) (students s) of
             None \<Rightarrow> Inl NoUserWithEnrollment
           | Some user \<Rightarrow> Inr user))"

text \<open>\<^verbatim>\<open>POST /login\<close>: the stored password is compared with \<^verbatim>\<open>===\<close>.\<close>

definition login :: "db \<Rightarrow> login_body \<Rightarrow> auth_error + session" where
  "login s body =
    (case login_user s body of
       Inl e \<Rightarrow> Inl e
     | Inr user \<Rightarrow>
        if a_password user = lb_password body
        then Inr \<lparr>se_userId = a_id user, se_userName = a_name user,
                  se_userType = lb_userType body\<rparr>
        else Inl WrongPassword)"

datatype collection = StudentCollection | TeacherCollection

fun accounts_of :: "collection \<Rightarrow> db \<Rightarrow> account list" where
  "accounts_of StudentCollection s = students s"
| "accounts_of TeacherCollection s = teachers s"

text \<open>
  The account with an unexpired reset token: looked for among the students first, then
  among the teachers.
\<close>

definition has_reset_token :: "time \<Rightarrow> string \<Rightarrow> account \<Rightarrow> bool" where
  "has_reset_token now token a =
     (a_resetPasswordToken a = Some token
      \<and> (case a_resetPasswordTokenExpires a of None \<Rightarrow> False | Some t \<Rightarrow> now < t))"

definition find_by_reset_token :: "db \<Rightarrow> time \<Rightarrow> string \<Rightarrow> (collection \<times> account) option" where
  "find_by_reset_token s now token =
    (case findOne (has_reset_token now token) (students s) of
       Some user \<Rightarrow> Some (StudentCollection, user)
     | None \<Rightarrow>
        (case findOne (has_reset_token now token) (teachers s) of
           Some user \<Rightarrow> Some (TeacherCollection, user)
         | None \<Rightarrow> None))"

text \<open>\<^verbatim>\<open>user.save()\<close> after the password has been set and the token cleared.\<close>

definition save_new_password :: "string \<Rightarrow> account \<Rightarrow> account list \<Rightarrow> account list" where
  "save_new_password newPassword user accounts =
     findByIdAndUpdate a_id (a_id user)
       (\<lambda>d. d\<lparr>a_password := newPassword, a_resetPasswordToken := None,
               a_resetPasswordTokenExpires := None\<rparr>) accounts"

text \<open>\<^verbatim>\<open>POST /reset-password/:token\<close>.\<close>

definition reset_password ::
  "db \<Rightarrow> time \<Rightarrow> string \<Rightarrow> string \<Rightarrow> string \<Rightarrow> (auth_error + unit) \<times> db" where
  "reset_password s now token newPassword confirmNewPassword =
    (case find_by_reset_token s now token of
       None \<Rightarrow> (Inl InvalidResetLink, s)
     | Some (coll, user) \<Rightarrow>
        if newPassword \<noteq> confirmNewPassword then (Inl PasswordsDoNotMatch, s)
        else if length newPassword < 6 then (Inl PasswordTooShort, s)
        else (Inr (),
              case coll of
                StudentCollection \<Rightarrow>
                  s\<lparr>students := save_new_password newPassword user (students s)\<rparr>
              | TeacherCollection \<Rightarrow>
                  s\<lparr>teachers := save_new_password newPassword user (teachers s)\<rparr>))"

section \<open>The lookups of the handlers\<close>

text \<open>
  Names for the queries that the handlers put to the database: the active code with a
  submitted value, a student's enrollment row in a class (active or not), a student's
  join request for a class (of any status), and the student record.
\<close>

abbreviation lookup_code :: "db \<Rightarrow> string \<Rightarrow> joinCodeDoc option" where
  "lookup_code s joinCode \<equiv>
     findOne (\<lambda>d. jc_joinCode d = toUpperCase joinCode \<and> jc_isActive d) (joinCodes s)"

abbreviation lookup_enrollment :: "db \<Rightarrow> oid \<Rightarrow> oid \<Rightarrow> classStudent option" where
  "lookup_enrollment s classId studentId \<equiv>
     findOne (\<lambda>e. cs_classId e = classId \<and> cs_studentId e = studentId) (classStudents s)"

abbreviation lookup_request :: "db \<Rightarrow> oid \<Rightarrow> oid \<Rightarrow> joinRequest option" where
  "lookup_request s classId studentId \<equiv>
     findOne (\<lambda>r. jr_classId r = classId \<and> jr_studentId r = studentId) (joinRequests s)"

abbreviation lookup_student :: "db \<Rightarrow> oid \<Rightarrow> account option" where
  "lookup_student s studentId \<equiv> findOne (\<lambda>a. a_id a = studentId) (students s)"

text \<open>The usage count of a code goes up by one.\<close>

abbreviation inc_usage :: "joinCodeDoc \<Rightarrow> joinCodeDoc" where
  "inc_usage d \<equiv> d\<lparr>jc_usageCount := jc_usageCount d + 1\<rparr>"

text \<open>The fields that the handlers write when they switch an enrollment row on again.\<close>

abbreviation reactivated :: "time \<Rightarrow> string \<Rightarrow> string option \<Rightarrow> classStudent \<Rightarrow> classStudent" where
  "reactivated now name enr e \<equiv>
     e\<lparr>cs_isActive := True, cs_enrolledAt := now, cs_studentName := name,
       cs_studentEnrollment := enr\<rparr>"


text \<open>
  The queries of the approval handler: the caller's active class, and the pending
  request with the given identifier in that class. And the fields that \<open>approve\<close>
  writes, and the number of active enrollment rows of a class.
\<close>

abbreviation lookup_class :: "db \<Rightarrow> oid \<Rightarrow> oid \<Rightarrow> classDoc option" where
  "lookup_class s classId teacherId \<equiv>
     findOne (\<lambda>c. c_id c = classId \<and> c_teacherId c = teacherId \<and> c_isActive c) (classes s)"

abbreviation lookup_pending :: "db \<Rightarrow> oid \<Rightarrow> oid \<Rightarrow> joinRequest option" where
  "lookup_pending s requestId classId \<equiv>
     findOne (\<lambda>r. jr_id r = requestId \<and> jr_classId r = classId \<and> jr_status r = Pending)
       (joinRequests s)"

abbreviation approved :: "time \<Rightarrow> oid \<Rightarrow> joinRequest \<Rightarrow> joinRequest" where
  "approved now teacherId r \<equiv>
     r\<lparr>jr_status := Approved, jr_processedAt := Some now, jr_processedBy := Some teacherId\<rparr>"

abbreviation active_students :: "db \<Rightarrow> oid \<Rightarrow> nat" where
  "active_students s classId \<equiv>
     countDocuments (\<lambda>e. cs_classId e = classId \<and> cs_isActive e) (classStudents s)"

section \<open>The invariant of the join codes\<close>

text \<open>The active join codes of a class, and: no two active join codes belong to the same class.\<close>

definition active_codes_of :: "db \<Rightarrow> oid \<Rightarrow> joinCodeDoc list" where
  "active_codes_of s classId = filter (\<lambda>d. jc_classId d = classId \<and> jc_isActive d) (joinCodes s)"

definition one_active_code_per_class :: "db \<Rightarrow> bool" where
  "one_active_code_per_class s = distinct (map jc_classId (filter jc_isActive (joinCodes s)))"

section \<open>Example data\<close>

text \<open>A school with two students, one teacher and her class, which has an active join code.\<close>

definition ex_db :: db where
  "ex_db = \<lparr>
     students = [\<lparr>a_id = 1, a_name = ''Alice'', a_email = None, a_enrollment = Some ''EN001'',
                  a_password = ''secret1'', a_resetPasswordToken = None,
                  a_resetPasswordTokenExpires = None\<rparr>,
                 \<lparr>a_id = 2, a_name = ''Bob'', a_email = None, a_enrollment = Some ''EN002'',
                  a_password = ''secret2'', a_resetPasswordToken = None,
                  a_resetPasswordTokenExpires = None\<rparr>],
     teachers = [\<lparr>a_id = 10, a_name = ''Carol'', a_email = Some ''carol@school.org'',
                  a_enrollment = None, a_password = ''chalk'', a_resetPasswordToken = None,
                  a_resetPasswordTokenExpires = None\<rparr>],
     classes = [\<lparr>c_id = 100, c_name = ''Math'', c_subject = ''Algebra'', c_teacherId = 10,
                 c_isActive = True, c_studentCount = 0, c_updatedAt = 0\<rparr>],
     classStudents = [],
     joinCodes = [\<lparr>jc_id = 1, jc_classId = 100, jc_teacherId = 10, jc_className = ''Math'',
                   jc_classSubject = ''Algebra'', jc_teacherName = ''Carol'',
                   jc_joinCode = ''OLD001'', jc_expiresAt = 5000, jc_isActive = True,
                   jc_usageCount = 0, jc_maxUsage = 50\<rparr>],
     joinRequests = []\<rparr>"

text \<open>
  A class with one join code of cap 1: the stored code of the spec's example (the
  issuing handler itself always sets the cap to 50).
\<close>

definition ex_cap_db :: db where
  "ex_cap_db = ex_db\<lparr>joinCodes :=
     [\<lparr>jc_id = 1, jc_classId = 100, jc_teacherId = 10, jc_className = ''Math'',
       jc_classSubject = ''Algebra'', jc_teacherName = ''Carol'',
       jc_joinCode = ''ABC123'', jc_expiresAt = 601000, jc_isActive = True,
       jc_usageCount = 0, jc_maxUsage = 1\<rparr>]\<rparr>"

text \<open>Alice is enrolled in the class.\<close>

definition ex_enrolled_db :: db where
  "ex_enrolled_db = ex_db\<lparr>classStudents :=
     [\<lparr>cs_id = 1, cs_classId = 100, cs_studentId = 1, cs_studentName = ''Alice'',
       cs_studentEnrollment = Some ''EN001'', cs_enrolledAt = 500, cs_isActive = True\<rparr>]\<rparr>"

text \<open>
  Alice has left the class: her enrollment row is inactive, and an earlier join request
  of hers was rejected. Bob has a pending request.
\<close>

definition ex_inactive_db :: db where
  "ex_inactive_db = ex_db\<lparr>
     classStudents :=
       [\<lparr>cs_id = 1, cs_classId = 100, cs_studentId = 1, cs_studentName = ''Alice'',
         cs_studentEnrollment = Some ''EN001'', cs_enrolledAt = 500, cs_isActive = False\<rparr>],
     joinRequests :=
       [\<lparr>jr_id = 1, jr_classId = 100, jr_studentId = 1, jr_studentName = ''Alice'',
         jr_studentEnrollment = Some ''EN001'', jr_joinCode = ''OLD001'', jr_teacherId = 10,
         jr_status = Rejected, jr_processedAt = Some 400, jr_processedBy = Some 10\<rparr>,
        \<lparr>jr_id = 2, jr_classId = 100, jr_studentId = 2, jr_studentName = ''Bob'',
         jr_studentEnrollment = Some ''EN002'', jr_joinCode = ''OLD001'', jr_teacherId = 10,
         jr_status = Pending, jr_processedAt = None, jr_processedBy = None\<rparr>]\<rparr>"


text \<open>
  Alice is enrolled and active, her join request is still pending, and the student
  counter of the class, 0, is behind the one active enrollment row.
\<close>

definition ex_stale_db :: db where
  "ex_stale_db = ex_enrolled_db\<lparr>joinRequests :=
       [\<lparr>jr_id = 1, jr_classId = 100, jr_studentId = 1, jr_studentName = ''Alice'',
         jr_studentEnrollment = Some ''EN001'', jr_joinCode = ''OLD001'', jr_teacherId = 10,
         jr_status = Pending, jr_processedAt = None, jr_processedBy = None\<rparr>]\<rparr>"

text \<open>
  Alice is enrolled; Bob has a pending request and no enrollment row; the student
  counter of the class is still 0.
\<close>

definition ex_pending_db :: db where
  "ex_pending_db = ex_enrolled_db\<lparr>joinRequests :=
       [\<lparr>jr_id = 7, jr_classId = 100, jr_studentId = 2, jr_studentName = ''Bob'',
         jr_studentEnrollment = Some ''EN002'', jr_joinCode = ''OLD001'', jr_teacherId = 10,
         jr_status = Pending, jr_processedAt = None, jr_processedBy = None\<rparr>]\<rparr>"

text \<open>Alice has asked for a password reset; her token is good until 9000.\<close>

definition ex_reset_db :: db where
  "ex_reset_db = ex_db\<lparr>students :=
     [\<lparr>a_id = 1, a_name = ''Alice'', a_email = Some ''alice@school.org'',
       a_enrollment = Some ''EN001'', a_password = ''secret1'',
       a_resetPasswordToken = Some ''c0ffee'', a_resetPasswordTokenExpires = Some 9000\<rparr>,
      \<lparr>a_id = 2, a_name = ''Bob'', a_email = None, a_enrollment = Some ''EN002'',
       a_password = ''secret2'', a_resetPasswordToken = None,
       a_resetPasswordTokenExpires = None\<rparr>]\<rparr>"

text \<open>Dave signs up as a teacher; Carol logs in, with her password and with another.\<close>

definition ex_signup_body :: signup_body where
  "ex_signup_body = \<lparr>sb_userType = ''teacher'', sb_name = ''Dave '',
     sb_email = Some '' Dave@School.org'', sb_enrollment = None, sb_password = ''Pa55 word''\<rparr>"

definition ex_login_body :: "string \<Rightarrow> login_body" where
  "ex_login_body password = \<lparr>lb_userType = ''teacher'', lb_email = Some ''Carol@school.org '',
     lb_enrollment = None, lb_password = password\<rparr>"

section \<open>Properties\<close>

subsection \<open>Validation does not touch the usage count\<close>

lemma updateOne_map_inv:
  assumes "\<And>x. g (f x) = g x"
  shows "map g (updateOne p f xs) = map g xs"
  using assms by (induction xs) auto

text \<open>
  C6. Validating a join code never changes a usage counter: whatever the input and
  whatever the answer, the join codes carry the same identifiers and the same usage
  counts, in the same order, after the call as before it.
\<close>

theorem validate_join_code_keeps_usageCount:
  "map (\<lambda>d. (jc_id d, jc_usageCount d)) (joinCodes (snd (validate_join_code s now code studentId)))
   = map (\<lambda>d. (jc_id d, jc_usageCount d)) (joinCodes s)"
  by (simp add: validate_join_code_def Let_def findByIdAndUpdate_def updateOne_map_inv
           split: option.splits)

subsection \<open>One active join code per class\<close>

lemma updateOne_filter_image:
  assumes q: "\<And>x. q (f x) \<Longrightarrow> q x" and g: "\<And>x. g (f x) = g x"
  shows "y \<in> set (filter q (updateOne p f xs)) \<Longrightarrow> g y \<in> g ` set (filter q xs)"
proof (induction xs)
  case Nil
  then show ?case by simp
next
  case (Cons x xs)
  show ?case
  proof (cases "p x")
    case True
    with Cons.prems have "y = f x \<and> q (f x) \<or> y \<in> set (filter q xs)"
      by (auto split: if_splits)
    then show ?thesis
    proof
      assume "y = f x \<and> q (f x)"
      then have "q x" and "g y = g x" using q g by auto
      then show ?thesis by auto
    next
      assume "y \<in> set (filter q xs)"
      then show ?thesis by auto
    qed
  next
    case False
    with Cons.prems have "y = x \<and> q x \<or> y \<in> set (filter q (updateOne p f xs))"
      by (auto split: if_splits)
    then show ?thesis using Cons.IH by auto
  qed
qed

lemma updateOne_distinct_filter:
  assumes q: "\<And>x. q (f x) \<Longrightarrow> q x" and g: "\<And>x. g (f x) = g x"
    and "distinct (map g (filter q xs))"
  shows "distinct (map g (filter q (updateOne p f xs)))"
  using assms(3)
proof (induction xs)
  case Nil
  then show ?case by simp
next
  case (Cons x xs)
  have sub: "\<And>y. y \<in> set (filter q (updateOne p f xs)) \<Longrightarrow> g y \<in> g ` set (filter q xs)"
    using updateOne_filter_image [where q = q and f = f and g = g, OF q g] by blast
  show ?case
  proof (cases "p x")
    case True
    with Cons.prems q g show ?thesis by (auto split: if_splits)
  next
    case False
    have d: "distinct (map g (filter q xs))" using Cons.prems by (auto split: if_splits)
    show ?thesis
    proof (cases "q x")
      case qx: True
      then have "g x \<notin> g ` set (filter q xs)" using Cons.prems by auto
      then have "g x \<notin> g ` set (filter q (updateOne p f xs))" using sub by auto
      then show ?thesis using False qx Cons.IH [OF d] by simp
    next
      case qx: False
      then show ?thesis using False Cons.IH [OF d] by simp
    qed
  qed
qed

lemma distinct_map_filter_le1:
  "distinct (map g xs) \<Longrightarrow> length (filter (\<lambda>x. g x = c) xs) \<le> 1"
  by (induction xs) (auto simp: image_iff filter_empty_conv)

lemma resolve_joinCodes:
  "joinCodes (snd (resolve_join_request s now teacherId classId requestId action)) = joinCodes s"
  by (simp add: resolve_join_request_def finish_approval_def approve_def reject_def Let_def
           split: option.splits)

lemma reactivate_joinCodes:
  "joinCodes (reactivate_enrollment s now sid sname st c e) =
     findByIdAndUpdate jc_id (jc_id c) (\<lambda>d. d\<lparr>jc_usageCount := jc_usageCount d + 1\<rparr>) (joinCodes s)"
  by (simp add: reactivate_enrollment_def Let_def)

lemma insert_joinCodes:
  "joinCodes (snd (insert_join_request s sid sname st code c)) =
     findByIdAndUpdate jc_id (jc_id c) (\<lambda>d. d\<lparr>jc_usageCount := jc_usageCount d + 1\<rparr>) (joinCodes s)"
  by (simp add: insert_join_request_def Let_def)

lemma join_request_joinCodes:
  "joinCodes (snd (join_request s now sid sname body)) = joinCodes s \<or>
   (\<exists>i. joinCodes (snd (join_request s now sid sname body)) =
      findByIdAndUpdate jc_id i (\<lambda>d. d\<lparr>jc_usageCount := jc_usageCount d + 1\<rparr>) (joinCodes s))"
  by (auto simp add: join_request_def reactivate_joinCodes insert_joinCodes split: option.splits)

lemma deactivate_filter_active:
  "filter jc_isActive (updateMany (\<lambda>d. jc_classId d = c \<and> jc_isActive d)
       (\<lambda>d. d\<lparr>jc_isActive := False\<rparr>) xs)
   = filter (\<lambda>d. jc_classId d \<noteq> c) (filter jc_isActive xs)"
  by (induction xs) (auto simp: updateMany_def)

lemma deactivate_none_left:
  "filter (\<lambda>d. jc_classId d = c \<and> jc_isActive d)
     (updateMany (\<lambda>d. jc_classId d = c \<and> jc_isActive d) (\<lambda>d. d\<lparr>jc_isActive := False\<rparr>) xs) = []"
  by (induction xs) (auto simp: updateMany_def)

lemma deactivate_keeps_invariant:
  assumes "distinct (map jc_classId (filter jc_isActive xs))"
  shows "distinct (map jc_classId (filter jc_isActive
           (updateMany (\<lambda>d. jc_classId d = c \<and> jc_isActive d) (\<lambda>d. d\<lparr>jc_isActive := False\<rparr>) xs)))"
proof -
  have "distinct (map jc_classId (filter (\<lambda>d. jc_classId d \<noteq> c) (filter jc_isActive xs)))"
    using assms by (rule distinct_map_filter)
  then show ?thesis by (simp only: deactivate_filter_active)
qed

lemma deactivate_class_absent:
  "c \<notin> jc_classId ` set (filter jc_isActive
           (updateMany (\<lambda>d. jc_classId d = c \<and> jc_isActive d) (\<lambda>d. d\<lparr>jc_isActive := False\<rparr>) xs))"
  by (auto simp: deactivate_filter_active)

lemma generate_keeps_invariant:
  assumes "one_active_code_per_class s"
  shows "one_active_code_per_class (snd (generate_join_code s now cands teacherId teacherName classId))"
  using assms deactivate_keeps_invariant [of "joinCodes s" classId]
    deactivate_class_absent [of classId "joinCodes s"]
  by (auto simp: generate_join_code_def one_active_code_per_class_def Let_def
           split: option.splits)

lemma generate_one_active:
  assumes "generate_join_code s now cands teacherId teacherName classId = (Some (Inr ok), s')"
  shows "active_codes_of s' classId = [last (joinCodes s')] \<and>
         jc_joinCode (last (joinCodes s')) = g_joinCode ok"
  using assms deactivate_none_left [of classId "joinCodes s"]
  by (auto simp: generate_join_code_def active_codes_of_def Let_def split: option.splits)

lemma validate_keeps_invariant:
  assumes "one_active_code_per_class s"
  shows "one_active_code_per_class (snd (validate_join_code s now code studentId))"
  using assms
  by (auto simp: validate_join_code_def one_active_code_per_class_def Let_def
        findByIdAndUpdate_def intro!: updateOne_distinct_filter split: option.splits)

lemma join_request_keeps_invariant:
  assumes "one_active_code_per_class s"
  shows "one_active_code_per_class (snd (join_request s now sid sname body))"
  using assms join_request_joinCodes [of s now sid sname body]
  by (auto simp: one_active_code_per_class_def findByIdAndUpdate_def
        intro!: updateOne_distinct_filter)

lemma resolve_keeps_invariant:
  assumes "one_active_code_per_class s"
  shows "one_active_code_per_class (snd (resolve_join_request s now teacherId classId requestId action))"
  using assms by (simp add: one_active_code_per_class_def resolve_joinCodes)

text \<open>
  C1. When a join code is issued, the codes of the class that were active have been
  switched off first, so the new code (the last document) is the only active code of the
  class, whatever the database held before. And a database in which no class has two
  active codes is still such a database after each of the four operations on join codes
  and join requests, whatever they answer.
\<close>

theorem at_most_one_active_code_per_class:
  "(\<forall>ok s'. generate_join_code s now cands teacherId teacherName classId = (Some (Inr ok), s')
       \<longrightarrow> active_codes_of s' classId = [last (joinCodes s')]
           \<and> jc_joinCode (last (joinCodes s')) = g_joinCode ok)
   \<and> (one_active_code_per_class s \<longrightarrow>
        (\<forall>c. length (active_codes_of s c) \<le> 1)
      \<and> one_active_code_per_class (snd (generate_join_code s now cands teacherId teacherName classId))
      \<and> one_active_code_per_class (snd (validate_join_code s now code studentId))
      \<and> one_active_code_per_class (snd (join_request s now studentId studentName body_joinCode))
      \<and> one_active_code_per_class (snd (resolve_join_request s now teacherId classId requestId action)))"
proof -
  have "length (active_codes_of s c) \<le> 1" if "one_active_code_per_class s" for c
  proof -
    have "active_codes_of s c = filter (\<lambda>d. jc_classId d = c) (filter jc_isActive (joinCodes s))"
      by (auto simp: active_codes_of_def intro: filter_cong)
    then show ?thesis
      using that distinct_map_filter_le1 [of jc_classId "filter jc_isActive (joinCodes s)" c]
      by (simp add: one_active_code_per_class_def)
  qed
  then show ?thesis
    using generate_one_active [of s now cands teacherId teacherName classId]
      generate_keeps_invariant [of s now cands teacherId teacherName classId]
      validate_keeps_invariant [of s now code studentId]
      join_request_keeps_invariant [of s now studentId studentName body_joinCode]
      resolve_keeps_invariant [of s now teacherId classId requestId action]
    by blast
qed

lemmas ex_simps = ex_db_def generate_join_code_def validate_join_code_def join_request_def
  resolve_join_request_def findOne_def updateMany_def findByIdAndUpdate_def new_id_def
  toUpperCase_def upper_char_def isExpired_def canBeUsed_def Let_def
  insert_join_request_def reactivate_enrollment_def approve_def reject_def finish_approval_def
  countDocuments_def one_active_code_per_class_def active_codes_of_def

theorem at_most_one_active_code_per_class_witness:
  "one_active_code_per_class ex_db
   \<and> fst (generate_join_code ex_db 1000 [''ABC123''] 10 ''Carol'' 100)
       = Some (Inr \<lparr>g_joinCode = ''ABC123'', g_expiresAt = 601000, g_className = ''Math'',
                    g_classSubject = ''Algebra''\<rparr>)
   \<and> map jc_joinCode (active_codes_of (snd (generate_join_code ex_db 1000 [''ABC123''] 10 ''Carol'' 100)) 100)
       = [''ABC123'']
   \<and> one_active_code_per_class (snd (generate_join_code ex_db 1000 [''ABC123''] 10 ''Carol'' 100))
   \<and> one_active_code_per_class (snd (validate_join_code ex_db 1000 ''old001'' 1))
   \<and> one_active_code_per_class (snd (join_request ex_db 1000 1 ''Alice'' (Some ''old001'')))
   \<and> one_active_code_per_class (snd (resolve_join_request ex_db 1000 10 100 1 ''approve''))"
proof -
  let ?g = "generate_join_code ex_db 1000 [''ABC123''] 10 ''Carol'' 100"
  have inv: "one_active_code_per_class ex_db"
    by (simp add: ex_db_def one_active_code_per_class_def)
  have gen: "?g = (Some (Inr \<lparr>g_joinCode = ''ABC123'', g_expiresAt = 601000,
                 g_className = ''Math'', g_classSubject = ''Algebra''\<rparr>), snd ?g)"
    by (simp add: ex_simps)
  have lst: "jc_joinCode (last (joinCodes (snd ?g))) = ''ABC123''"
    by (simp add: ex_simps)
  note T = at_most_one_active_code_per_class [of ex_db 1000 "[''ABC123'']" 10 "''Carol''" 100
         "''old001''" 1 "''Alice''" "Some ''old001''" 1 "''approve''"]
  from T gen have a: "active_codes_of (snd ?g) 100 = [last (joinCodes (snd ?g))]"
    by blast
  from T inv have b:
    "one_active_code_per_class (snd ?g)
     \<and> one_active_code_per_class (snd (validate_join_code ex_db 1000 ''old001'' 1))
     \<and> one_active_code_per_class (snd (join_request ex_db 1000 1 ''Alice'' (Some ''old001'')))
     \<and> one_active_code_per_class (snd (resolve_join_request ex_db 1000 10 100 1 ''approve''))"
    by blast
  have c: "fst ?g = Some (Inr \<lparr>g_joinCode = ''ABC123'', g_expiresAt = 601000,
                 g_className = ''Math'', g_classSubject = ''Algebra''\<rparr>)"
    using gen by (metis fst_conv)
  show ?thesis using a b c lst inv by simp
qed

subsection \<open>Expired join codes\<close>

lemma updateOne_distinct_ids:
  assumes "distinct (map ident xs)"
  shows "updateOne (\<lambda>x. ident x = i) f xs = map (\<lambda>x. if ident x = i then f x else x) xs"
  using assms
proof (induction xs)
  case Nil
  then show ?case by simp
next
  case (Cons x xs)
  show ?case
  proof (cases "ident x = i")
    case True
    have nin: "ident x \<notin> set (map ident xs)" using Cons.prems by simp
    have "ident y \<noteq> i" if "y \<in> set xs" for y
    proof -
      from that have "ident y \<in> set (map ident xs)" by simp
      with nin True show ?thesis by metis
    qed
    then have "\<forall>y\<in>set xs. ident y \<noteq> i" by blast
    then have "map (\<lambda>x. if ident x = i then f x else x) xs = xs"
      by (simp add: map_idI)
    with True show ?thesis by simp
  next
    case False
    with Cons show ?thesis by simp
  qed
qed

lemma fst_of_pair: "p = (a, b) \<Longrightarrow> fst p = a"
  by simp

lemma findOne_SomeD: "findOne p xs = Some x \<Longrightarrow> x \<in> set xs \<and> p x"
  by (auto simp: findOne_def find_Some_iff)

lemma fold_max_ge: "x \<in> set ids \<Longrightarrow> x \<le> fold max ids (a::nat)"
proof (induction ids arbitrary: a)
  case Nil
  then show ?case by simp
next
  case (Cons y ys)
  have mono: "b \<le> fold max ys b" for b :: nat
    by (induction ys arbitrary: b) (auto intro: order_trans [OF max.cobounded2])
  from Cons show ?case
  proof (cases "x = y")
    case True
    then show ?thesis using mono [of "max y a"] by simp
  next
    case False
    with Cons show ?thesis by simp
  qed
qed

lemma new_id_fresh: "new_id ids \<notin> set ids"
  using fold_max_ge [of "new_id ids" ids 0] by (auto simp: new_id_def)

lemma generateUniqueCode_unique:
  "generateUniqueCode cands docs = Some k \<Longrightarrow>
     \<not> list_ex (\<lambda>d. jc_joinCode d = k \<and> jc_isActive d) docs"
  by (induction cands) (auto split: if_splits)

lemma findOne_snoc:
  "findOne p (xs @ [y]) = (case findOne p xs of Some x \<Rightarrow> Some x
                            | None \<Rightarrow> if p y then Some y else None)"
  by (induction xs) (auto simp: findOne_def)

lemma updateOne_snoc_fresh:
  assumes "\<forall>x\<in>set xs. \<not> p x" and "p y"
  shows "updateOne p f (xs @ [y]) = xs @ [f y]"
  using assms by (induction xs) auto

lemma validate_expired:
  assumes d: "distinct (map jc_id (joinCodes s))"
    and f: "findOne (\<lambda>d. jc_joinCode d = toUpperCase code \<and> jc_isActive d) (joinCodes s) = Some c"
    and e: "jc_expiresAt c < now"
  shows "validate_join_code s now code studentId =
           (Inl Expired, s\<lparr>joinCodes :=
              map (\<lambda>d. if jc_id d = jc_id c then d\<lparr>jc_isActive := False\<rparr> else d) (joinCodes s)\<rparr>)"
  using f e updateOne_distinct_ids [OF d]
  by (simp add: validate_join_code_def Let_def isExpired_def findByIdAndUpdate_def)

lemma generate_then_validate:
  assumes g: "generate_join_code s T cands teacherId teacherName classId = (Some (Inr ok), s1)"
    and u: "toUpperCase code = g_joinCode ok"
  shows "g_expiresAt ok = T + 600000 \<and>
         fst (validate_join_code s1 (T + 11 * 60 * 1000) code studentId) = Inl Expired \<and>
         jc_joinCode (last (joinCodes (snd (validate_join_code s1 (T + 11 * 60 * 1000) code studentId))))
            = g_joinCode ok \<and>
         \<not> jc_isActive (last (joinCodes (snd (validate_join_code s1 (T + 11 * 60 * 1000) code studentId))))"
proof -
  let ?de = "updateMany (\<lambda>d. jc_classId d = classId \<and> jc_isActive d)
               (\<lambda>d. d\<lparr>jc_isActive := False\<rparr>) (joinCodes s)"
  from g have k: "generateUniqueCode cands ?de = Some (g_joinCode ok)"
    and ex: "g_expiresAt ok = T + 600000"
    by (auto simp: generate_join_code_def Let_def split: option.splits)
  from g have "\<exists>n. joinCodes s1 = ?de @ [n] \<and> jc_id n = new_id (map jc_id ?de)
       \<and> jc_joinCode n = g_joinCode ok \<and> jc_expiresAt n = T + 600000 \<and> jc_isActive n"
    by (auto simp: generate_join_code_def Let_def split: option.splits)
  then obtain new where s1: "joinCodes s1 = ?de @ [new]"
    and nid: "jc_id new = new_id (map jc_id ?de)"
    and ncode: "jc_joinCode new = g_joinCode ok"
    and nexp: "jc_expiresAt new = T + 600000"
    and nact: "jc_isActive new"
    by blast
  have none: "findOne (\<lambda>d. jc_joinCode d = g_joinCode ok \<and> jc_isActive d) ?de = None"
    using generateUniqueCode_unique [OF k]
    by (auto simp: findOne_def find_None_iff list_ex_iff)
  have found: "findOne (\<lambda>d. jc_joinCode d = toUpperCase code \<and> jc_isActive d) (joinCodes s1)
                 = Some new"
    using none ncode nact by (simp add: s1 u findOne_snoc)
  have "jc_id x \<noteq> jc_id new" if "x \<in> set ?de" for x
  proof -
    from that have "jc_id x \<in> set (map jc_id ?de)" by simp
    with new_id_fresh [of "map jc_id ?de"] nid show ?thesis by metis
  qed
  then have fresh: "\<forall>x\<in>set ?de. jc_id x \<noteq> jc_id new" by blast
  have upd: "findByIdAndUpdate jc_id (jc_id new) (\<lambda>d. d\<lparr>jc_isActive := False\<rparr>) (joinCodes s1)
               = ?de @ [new\<lparr>jc_isActive := False\<rparr>]"
    unfolding findByIdAndUpdate_def s1
    by (rule updateOne_snoc_fresh) (use fresh in auto)
  have v: "validate_join_code s1 (T + 11 * 60 * 1000) code studentId =
             (Inl Expired, s1\<lparr>joinCodes := ?de @ [new\<lparr>jc_isActive := False\<rparr>]\<rparr>)"
    using found upd nexp by (simp add: validate_join_code_def Let_def isExpired_def)
  show ?thesis using ex ncode v by simp
qed

lemma validate_not_found:
  assumes "findOne (\<lambda>d. jc_joinCode d = toUpperCase code \<and> jc_isActive d) (joinCodes s) = None"
  shows "validate_join_code s now code studentId = (Inl InvalidOrExpiredCode, s)"
  using assms by (simp add: validate_join_code_def Let_def)

text \<open>
  C4, as the spec has it, fails on the code: the join code \<open>OLD001\<close> expires at 5000.
  Its validation at 6000 answers \<open>Expired\<close> and switches it off; its validation at
  7000, still after its expiry timestamp, no longer finds it among the active codes and
  answers \<open>InvalidOrExpiredCode\<close> (status 404), not \<open>Expired\<close>.
\<close>

theorem validate_expired_twice_counterexample:
  "jc_expiresAt (hd (joinCodes ex_db)) < 6000
   \<and> fst (validate_join_code ex_db 6000 ''OLD001'' 1) = Inl Expired
   \<and> fst (validate_join_code (snd (validate_join_code ex_db 6000 ''OLD001'' 1)) 7000 ''OLD001'' 1)
       = Inl InvalidOrExpiredCode"
  by (simp add: ex_simps)

text \<open>
  C4, amended. When the code that the lookup finds (a code with the submitted value
  that is still active) is past its expiry timestamp, validation answers \<open>Expired\<close> and
  the code, and no other document, is switched off; the usage count plays no part. In
  particular a code issued at \<open>T\<close> expires at \<open>T\<close> plus ten minutes, and its validation
  eleven minutes after \<open>T\<close>, the first since it was issued, answers \<open>Expired\<close> and leaves
  it inactive. A code that is no longer active, because an earlier validation or a newer
  issue has switched it off, is not found and is answered with \<open>InvalidOrExpiredCode\<close>.
\<close>

theorem validate_after_expiry_fails_Expired:
  "(distinct (map jc_id (joinCodes s))
      \<and> findOne (\<lambda>d. jc_joinCode d = toUpperCase code \<and> jc_isActive d) (joinCodes s) = Some c
      \<and> jc_expiresAt c < now
    \<longrightarrow> validate_join_code s now code studentId =
          (Inl Expired, s\<lparr>joinCodes :=
             map (\<lambda>d. if jc_id d = jc_id c then d\<lparr>jc_isActive := False\<rparr> else d) (joinCodes s)\<rparr>))
   \<and> (generate_join_code s0 T cands teacherId teacherName classId = (Some (Inr ok), s1)
      \<and> toUpperCase code' = g_joinCode ok
    \<longrightarrow> g_expiresAt ok = T + 600000
      \<and> fst (validate_join_code s1 (T + 11 * 60 * 1000) code' studentId') = Inl Expired
      \<and> jc_joinCode (last (joinCodes (snd (validate_join_code s1 (T + 11 * 60 * 1000) code' studentId'))))
          = g_joinCode ok
      \<and> \<not> jc_isActive (last (joinCodes (snd (validate_join_code s1 (T + 11 * 60 * 1000) code' studentId')))))
   \<and> (findOne (\<lambda>d. jc_joinCode d = toUpperCase other \<and> jc_isActive d) (joinCodes s') = None
    \<longrightarrow> validate_join_code s' later other student = (Inl InvalidOrExpiredCode, s'))"
  using validate_expired [of s code c now studentId]
    generate_then_validate [of s0 T cands teacherId teacherName classId ok s1 code' studentId']
    validate_not_found [of other s' later student]
  by blast

theorem validate_after_expiry_fails_Expired_witness:
  "distinct (map jc_id (joinCodes ex_db))
   \<and> findOne (\<lambda>d. jc_joinCode d = toUpperCase ''old001'' \<and> jc_isActive d) (joinCodes ex_db)
       = Some (hd (joinCodes ex_db))
   \<and> jc_expiresAt (hd (joinCodes ex_db)) < 6000
   \<and> fst (validate_join_code ex_db 6000 ''old001'' 1) = Inl Expired
   \<and> map jc_isActive (joinCodes (snd (validate_join_code ex_db 6000 ''old001'' 1))) = [False]
   \<and> fst (generate_join_code ex_db 1000 [''ABC123''] 10 ''Carol'' 100)
       = Some (Inr \<lparr>g_joinCode = ''ABC123'', g_expiresAt = 601000, g_className = ''Math'',
                    g_classSubject = ''Algebra''\<rparr>)
   \<and> toUpperCase ''abc123'' = ''ABC123''
   \<and> fst (validate_join_code (snd (generate_join_code ex_db 1000 [''ABC123''] 10 ''Carol'' 100))
            661000 ''abc123'' 2) = Inl Expired
   \<and> findOne (\<lambda>d. jc_joinCode d = toUpperCase ''old001'' \<and> jc_isActive d)
        (joinCodes (snd (validate_join_code ex_db 6000 ''old001'' 1))) = None
   \<and> fst (validate_join_code (snd (validate_join_code ex_db 6000 ''old001'' 1)) 7000 ''old001'' 1)
       = Inl InvalidOrExpiredCode"
proof -
  let ?g = "generate_join_code ex_db 1000 [''ABC123''] 10 ''Carol'' 100"
  let ?ok = "\<lparr>g_joinCode = ''ABC123'', g_expiresAt = 601000, g_className = ''Math'',
               g_classSubject = ''Algebra''\<rparr>"
  have h1: "distinct (map jc_id (joinCodes ex_db))" by (simp add: ex_db_def)
  have h2: "findOne (\<lambda>d. jc_joinCode d = toUpperCase ''old001'' \<and> jc_isActive d) (joinCodes ex_db)
       = Some (hd (joinCodes ex_db))"
    by (simp add: ex_db_def findOne_def toUpperCase_def upper_char_def)
  have h3: "jc_expiresAt (hd (joinCodes ex_db)) < 6000" by (simp add: ex_db_def)
  have h4: "?g = (Some (Inr ?ok), snd ?g)" by (simp add: ex_simps)
  have h5: "toUpperCase ''abc123'' = g_joinCode ?ok"
    by (simp add: toUpperCase_def upper_char_def)
  note T = validate_after_expiry_fails_Expired [of ex_db "''old001''" "hd (joinCodes ex_db)" 6000 1
      ex_db 1000 "[''ABC123'']" 10 "''Carol''" 100 ?ok "snd ?g" "''abc123''" 2]
  from T h1 h2 h3 have a: "validate_join_code ex_db 6000 ''old001'' 1 =
      (Inl Expired, ex_db\<lparr>joinCodes :=
         map (\<lambda>d. if jc_id d = jc_id (hd (joinCodes ex_db)) then d\<lparr>jc_isActive := False\<rparr> else d)
           (joinCodes ex_db)\<rparr>)"
    by blast
  from T h4 h5 have b: "fst (validate_join_code (snd ?g) (1000 + 11 * 60 * 1000) ''abc123'' 2)
      = Inl Expired"
    by blast
  have c: "map jc_isActive (joinCodes (snd (validate_join_code ex_db 6000 ''old001'' 1))) = [False]"
    unfolding a by (simp add: ex_db_def)
  have d: "fst ?g = Some (Inr ?ok)" using h4 by (metis fst_conv)
  let ?v = "snd (validate_join_code ex_db 6000 ''old001'' 1)"
  have e: "findOne (\<lambda>d. jc_joinCode d = toUpperCase ''old001'' \<and> jc_isActive d) (joinCodes ?v) = None"
    unfolding a by (simp add: ex_db_def findOne_def)
  note N = validate_after_expiry_fails_Expired [where s' = ?v and other = "''old001''"
      and later = 7000 and student = 1]
  note f = fst_of_pair [OF N [THEN conjunct2, THEN conjunct2, THEN mp, OF e]]
  show ?thesis using h1 h2 h3 h5 a b c d e f by simp
qed

subsection \<open>Join codes that have reached their cap\<close>

lemma join_request_failure_unchanged:
  "join_request s now sid sname body = (Inl e, s1) \<Longrightarrow> s1 = s"
  by (auto simp: join_request_def insert_join_request_def Let_def
        split: option.splits if_splits)

lemma join_request_sent_body:
  assumes "join_request s now sid sname body = (Inr (RequestSent rid), s1)"
  shows "\<exists>code c. body = Some code \<and> lookup_code s code = Some c"
  using assms
  by (auto simp: join_request_def split: option.splits if_splits)

lemma join_request_sent:
  assumes "join_request s now sid sname (Some code) = (Inr (RequestSent rid), s1)"
    and "lookup_code s code = Some c"
  shows "code \<noteq> []" and "\<not> isExpired now c" and "canBeUsed c"
    and "lookup_enrollment s (jc_classId c) sid = None"
    and "students s1 = students s" and "teachers s1 = teachers s"
    and "classes s1 = classes s" and "classStudents s1 = classStudents s"
    and "joinCodes s1 = findByIdAndUpdate jc_id (jc_id c) inc_usage (joinCodes s)"
    and "\<exists>st rs. lookup_student s sid = Some st
               \<and> (rs = joinRequests s \<or>
                  (\<exists>r. lookup_request s (jc_classId c) sid = Some r \<and> jr_status r = Rejected
                       \<and> rs = deleteOne (\<lambda>x. jr_id x = jr_id r) (joinRequests s)))
               \<and> joinRequests s1 = rs @
                     [\<lparr>jr_id = rid, jr_classId = jc_classId c, jr_studentId = sid,
                       jr_studentName = sname, jr_studentEnrollment = a_enrollment st,
                       jr_joinCode = toUpperCase code, jr_teacherId = jc_teacherId c,
                       jr_status = Pending, jr_processedAt = None, jr_processedBy = None\<rparr>]"
  using assms
  by (auto simp: join_request_def insert_join_request_def Let_def
        split: option.splits if_splits)

lemma findOne_map:
  assumes "\<And>x. p (f x) = p x"
  shows "findOne p (map f xs) = map_option f (findOne p xs)"
  using assms by (induction xs) (auto simp: findOne_def)

lemma validate_cap_reached:
  assumes "lookup_code s code = Some c" and "now \<le> jc_expiresAt c"
    and "jc_maxUsage c \<le> jc_usageCount c"
  shows "validate_join_code s now code studentId = (Inl UsageExceeded, s)"
  using assms by (simp add: validate_join_code_def Let_def isExpired_def canBeUsed_def)

lemma join_request_cap_reached:
  assumes "code \<noteq> []" and "lookup_student s sid = Some st"
    and "lookup_code s code = Some c" and "jc_maxUsage c \<le> jc_usageCount c"
  shows "join_request s now sid sname (Some code) = (Inl InvalidExpiredOrOverused, s)"
  using assms by (simp add: join_request_def canBeUsed_def)

lemma lookup_code_after_inc:
  assumes d: "distinct (map jc_id (joinCodes s))" and c: "lookup_code s code = Some c"
    and s1: "joinCodes s1 = findByIdAndUpdate jc_id (jc_id c) inc_usage (joinCodes s)"
  shows "joinCodes s1 = map (\<lambda>d. if jc_id d = jc_id c then inc_usage d else d) (joinCodes s)"
    and "lookup_code s1 code = Some (inc_usage c)"
proof -
  show m: "joinCodes s1 = map (\<lambda>d. if jc_id d = jc_id c then inc_usage d else d) (joinCodes s)"
    using s1 updateOne_distinct_ids [OF d] by (simp add: findByIdAndUpdate_def)
  have "lookup_code s1 code =
      map_option (\<lambda>d. if jc_id d = jc_id c then inc_usage d else d) (lookup_code s code)"
    unfolding m by (rule findOne_map) simp
  then show "lookup_code s1 code = Some (inc_usage c)" using c by simp
qed

lemma cap_one_second_request:
  assumes d: "distinct (map jc_id (joinCodes s))" and c: "lookup_code s code = Some c"
    and m: "jc_maxUsage c = 1"
    and j: "join_request s now sid sname (Some code) = (Inr (RequestSent rid), s1)"
    and st: "lookup_student s sid2 = Some st2"
  shows "jr_status (last (joinRequests s1)) = Pending \<and> jr_studentId (last (joinRequests s1)) = sid
       \<and> jr_classId (last (joinRequests s1)) = jc_classId c
       \<and> join_request s1 now2 sid2 sname2 (Some code) = (Inl InvalidExpiredOrOverused, s1)"
proof -
  note js = join_request_sent [OF j c]
  have look: "lookup_code s1 code = Some (inc_usage c)"
    by (rule lookup_code_after_inc(2) [OF d c js(9)])
  have stud: "lookup_student s1 sid2 = Some st2" using st by (simp add: js(5))
  have r: "join_request s1 now2 sid2 sname2 (Some code) = (Inl InvalidExpiredOrOverused, s1)"
    by (rule join_request_cap_reached [OF js(1) stud look]) (simp add: m)
  from js(10) obtain st :: account and rs where "joinRequests s1 = rs @
                     [\<lparr>jr_id = rid, jr_classId = jc_classId c, jr_studentId = sid,
                       jr_studentName = sname, jr_studentEnrollment = a_enrollment st,
                       jr_joinCode = toUpperCase code, jr_teacherId = jc_teacherId c,
                       jr_status = Pending, jr_processedAt = None, jr_processedBy = None\<rparr>]"
    by blast
  with r show ?thesis by simp
qed

lemma generate_cap_50:
  assumes "generate_join_code s T cands teacherId teacherName classId = (Some (Inr ok), s1)"
  shows "jc_maxUsage (last (joinCodes s1)) = 50 \<and> jc_usageCount (last (joinCodes s1)) = 0"
  using assms by (auto simp: generate_join_code_def Let_def split: option.splits)

text \<open>
  C5, as the spec has it, fails on the code: with the stored code \<open>ABC123\<close> of cap 1,
  the first request (by student 1) is accepted, and the second (by student 2) is not
  answered with \<open>UsageExceeded\<close> but with the handler's one rejection for unknown,
  expired and used-up codes.
\<close>

theorem cap_reached_counterexample:
  "fst (join_request ex_cap_db 1000 1 ''Alice'' (Some ''ABC123'')) = Inr (RequestSent 1)
   \<and> fst (join_request (snd (join_request ex_cap_db 1000 1 ''Alice'' (Some ''ABC123'')))
            2000 2 ''Bob'' (Some ''ABC123'')) \<noteq> Inl UsageExceeded"
  by (simp add: ex_cap_db_def ex_simps)

text \<open>
  C5, amended. A code that the lookup finds, unexpired, with its usage counter at or
  above its cap: validation answers \<open>UsageExceeded\<close>; a join request (of a student with
  a record) answers \<open>InvalidExpiredOrOverused\<close>, the same answer as for an unknown or
  expired code; neither writes anything. Every code is issued with cap 50 and usage 0.
  With a stored code of cap 1, when a first join request has been accepted its pending
  request is the last document, and a second join request with that code, by any
  student with a record, answers \<open>InvalidExpiredOrOverused\<close> and writes nothing.
\<close>

theorem cap_reached_fails:
  "(lookup_code s code = Some c \<and> now \<le> jc_expiresAt c \<and> jc_maxUsage c \<le> jc_usageCount c
      \<longrightarrow> validate_join_code s now code studentId = (Inl UsageExceeded, s)
        \<and> (code \<noteq> [] \<and> lookup_student s studentId \<noteq> None
            \<longrightarrow> join_request s now studentId studentName (Some code)
                  = (Inl InvalidExpiredOrOverused, s)))
   \<and> (generate_join_code s0 T cands teacherId teacherName classId = (Some (Inr ok), s')
      \<longrightarrow> jc_maxUsage (last (joinCodes s')) = 50 \<and> jc_usageCount (last (joinCodes s')) = 0)
   \<and> (distinct (map jc_id (joinCodes s)) \<and> lookup_code s code = Some c \<and> jc_maxUsage c = 1
      \<and> join_request s now studentId studentName (Some code) = (Inr (RequestSent rid), s1)
      \<and> lookup_student s otherId \<noteq> None
      \<longrightarrow> jr_status (last (joinRequests s1)) = Pending
        \<and> jr_studentId (last (joinRequests s1)) = studentId
        \<and> jr_classId (last (joinRequests s1)) = jc_classId c
        \<and> join_request s1 later otherId otherName (Some code)
             = (Inl InvalidExpiredOrOverused, s1))"
proof -
  have 1: "validate_join_code s now code studentId = (Inl UsageExceeded, s)"
    if "lookup_code s code = Some c" "now \<le> jc_expiresAt c" "jc_maxUsage c \<le> jc_usageCount c"
    using that by (rule validate_cap_reached)
  have 2: "join_request s now studentId studentName (Some code) = (Inl InvalidExpiredOrOverused, s)"
    if "lookup_code s code = Some c" "jc_maxUsage c \<le> jc_usageCount c" "code \<noteq> []"
      "lookup_student s studentId \<noteq> None"
  proof -
    from that(4) obtain st where "lookup_student s studentId = Some st" by blast
    from that(3) this that(1,2) show ?thesis by (rule join_request_cap_reached)
  qed
  have 3: "jc_maxUsage (last (joinCodes s')) = 50 \<and> jc_usageCount (last (joinCodes s')) = 0"
    if "generate_join_code s0 T cands teacherId teacherName classId = (Some (Inr ok), s')"
    using that by (rule generate_cap_50)
  have 4: "jr_status (last (joinRequests s1)) = Pending
        \<and> jr_studentId (last (joinRequests s1)) = studentId
        \<and> jr_classId (last (joinRequests s1)) = jc_classId c
        \<and> join_request s1 later otherId otherName (Some code)
             = (Inl InvalidExpiredOrOverused, s1)"
    if "distinct (map jc_id (joinCodes s))" "lookup_code s code = Some c" "jc_maxUsage c = 1"
      "join_request s now studentId studentName (Some code) = (Inr (RequestSent rid), s1)"
      "lookup_student s otherId \<noteq> None"
  proof -
    from that(5) obtain st2 where "lookup_student s otherId = Some st2" by blast
    from that(1-4) this show ?thesis by (rule cap_one_second_request)
  qed
  from 1 2 3 4 show ?thesis by blast
qed

theorem cap_reached_fails_witness:
  "distinct (map jc_id (joinCodes ex_cap_db))
   \<and> lookup_code ex_cap_db ''ABC123'' = Some (hd (joinCodes ex_cap_db))
   \<and> jc_maxUsage (hd (joinCodes ex_cap_db)) = 1
   \<and> lookup_student ex_cap_db 2 \<noteq> None
   \<and> fst (join_request ex_cap_db 1000 1 ''Alice'' (Some ''ABC123'')) = Inr (RequestSent 1)
   \<and> (let s1 = snd (join_request ex_cap_db 1000 1 ''Alice'' (Some ''ABC123'')) in
        map jr_status (joinRequests s1) = [Pending]
      \<and> join_request s1 2000 2 ''Bob'' (Some ''ABC123'') = (Inl InvalidExpiredOrOverused, s1)
      \<and> lookup_code s1 ''abc123'' = Some (hd (joinCodes s1))
      \<and> 2000 \<le> jc_expiresAt (hd (joinCodes s1))
      \<and> jc_maxUsage (hd (joinCodes s1)) \<le> jc_usageCount (hd (joinCodes s1))
      \<and> validate_join_code s1 2000 ''abc123'' 2 = (Inl UsageExceeded, s1)
      \<and> join_request s1 2000 2 ''Bob'' (Some ''abc123'') = (Inl InvalidExpiredOrOverused, s1))
   \<and> jc_maxUsage (last (joinCodes (snd (generate_join_code ex_db 1000 [''ABC123''] 10 ''Carol'' 100))))
       = 50"
proof -
  let ?j = "join_request ex_cap_db 1000 1 ''Alice'' (Some ''ABC123'')"
  let ?s1 = "snd ?j"
  let ?g = "generate_join_code ex_db 1000 [''ABC123''] 10 ''Carol'' 100"
  have a1: "distinct (map jc_id (joinCodes ex_cap_db))" by (simp add: ex_cap_db_def)
  have a2: "lookup_code ex_cap_db ''ABC123'' = Some (hd (joinCodes ex_cap_db))"
    by (simp add: ex_cap_db_def ex_simps)
  have a3: "jc_maxUsage (hd (joinCodes ex_cap_db)) = 1" by (simp add: ex_cap_db_def)
  have a4: "lookup_student ex_cap_db 2 \<noteq> None" by (simp add: ex_cap_db_def ex_simps)
  have a5: "?j = (Inr (RequestSent 1), ?s1)" by (simp add: ex_cap_db_def ex_simps)
  have b1: "lookup_code ?s1 ''abc123'' = Some (hd (joinCodes ?s1))"
    by (simp add: ex_cap_db_def ex_simps)
  have b2: "2000 \<le> jc_expiresAt (hd (joinCodes ?s1))" by (simp add: ex_cap_db_def ex_simps)
  have b3: "jc_maxUsage (hd (joinCodes ?s1)) \<le> jc_usageCount (hd (joinCodes ?s1))"
    by (simp add: ex_cap_db_def ex_simps)
  have b4: "''abc123'' \<noteq> []" by simp
  have b5: "lookup_student ?s1 2 \<noteq> None" by (simp add: ex_cap_db_def ex_simps)
  have b6: "map jr_status (joinRequests ?s1) = [Pending]" by (simp add: ex_cap_db_def ex_simps)
  have g: "?g = (Some (Inr \<lparr>g_joinCode = ''ABC123'', g_expiresAt = 601000,
                 g_className = ''Math'', g_classSubject = ''Algebra''\<rparr>), snd ?g)"
    by (simp add: ex_simps)
  note T1 = cap_reached_fails [where s = ex_cap_db and code = "''ABC123''"
      and c = "hd (joinCodes ex_cap_db)" and now = 1000 and studentId = 1
      and studentName = "''Alice''" and rid = 1 and ?s1.0 = ?s1 and otherId = 2
      and later = 2000 and otherName = "''Bob''"
      and s0 = ex_db and T = 1000 and cands = "[''ABC123'']" and teacherId = 10
      and teacherName = "''Carol''" and classId = 100 and s' = "snd ?g"]
  note T2 = cap_reached_fails [where s = ?s1 and code = "''abc123''"
      and c = "hd (joinCodes ?s1)" and now = 2000 and studentId = 2
      and studentName = "''Bob''"]
  from T1 a1 a2 a3 a4 a5
  have c1: "join_request ?s1 2000 2 ''Bob'' (Some ''ABC123'') = (Inl InvalidExpiredOrOverused, ?s1)"
    by blast
  from T1 g have c2: "jc_maxUsage (last (joinCodes (snd ?g))) = 50" by blast
  from T2 b1 b2 b3 have c3: "validate_join_code ?s1 2000 ''abc123'' 2 = (Inl UsageExceeded, ?s1)"
    by blast
  from T2 b1 b2 b3 b4 b5
  have c4: "join_request ?s1 2000 2 ''Bob'' (Some ''abc123'') = (Inl InvalidExpiredOrOverused, ?s1)"
    by blast
  have a5': "fst ?j = Inr (RequestSent 1)" using a5 by (metis fst_conv)
  show ?thesis
    unfolding Let_def using a1 a2 a3 a4 a5' b1 b2 b3 b6 c1 c2 c3 c4 by blast
qed

subsection \<open>The usage count of a join code\<close>

lemma join_request_rejoined:
  assumes "join_request s now sid sname body = (Inr Rejoined, s1)"
  shows "\<exists>code c st e. body = Some code \<and> code \<noteq> [] \<and> lookup_student s sid = Some st
           \<and> lookup_code s code = Some c \<and> \<not> isExpired now c \<and> canBeUsed c
           \<and> lookup_enrollment s (jc_classId c) sid = Some e \<and> \<not> cs_isActive e
           \<and> s1 = reactivate_enrollment s now sid sname st c e"
  using assms
  by (auto simp: join_request_def insert_join_request_def Let_def
        split: option.splits if_splits)

text \<open>
  C3, as the spec has it, fails on the code: Alice, enrolled and active, submits the
  valid code of her class; the call does not reactivate anything, answers
  \<open>AlreadyEnrolled\<close>, and the usage count of the code is what it was.
\<close>

theorem usage_not_incremented_counterexample:
  "fst (join_request ex_enrolled_db 1000 1 ''Alice'' (Some ''OLD001'')) = Inl AlreadyEnrolled
   \<and> map jc_usageCount (joinCodes (snd (join_request ex_enrolled_db 1000 1 ''Alice'' (Some ''OLD001''))))
       = map jc_usageCount (joinCodes ex_enrolled_db)"
  by (simp add: ex_enrolled_db_def ex_simps)

text \<open>
  C3, amended. A join request that is answered with a failure writes nothing, so no
  usage count moves. A join request that is answered with a new pending request has
  added one to the usage count of the code it was made with, and has left every other
  join code, and every other field of that code, as it was.
\<close>

theorem usage_incremented_once_on_new_request:
  "(join_request s now studentId studentName body = (Inl e, s1) \<longrightarrow> s1 = s)
   \<and> (distinct (map jc_id (joinCodes s))
      \<and> join_request s now studentId studentName body = (Inr (RequestSent rid), s1)
      \<longrightarrow> (\<exists>code c. body = Some code \<and> lookup_code s code = Some c \<and> c \<in> set (joinCodes s)
            \<and> joinCodes s1 =
                map (\<lambda>d. if jc_id d = jc_id c then inc_usage d else d) (joinCodes s)))"
proof -
  have "\<exists>code c. body = Some code \<and> lookup_code s code = Some c \<and> c \<in> set (joinCodes s)
            \<and> joinCodes s1 = map (\<lambda>d. if jc_id d = jc_id c then inc_usage d else d) (joinCodes s)"
    if d: "distinct (map jc_id (joinCodes s))"
      and j: "join_request s now studentId studentName body = (Inr (RequestSent rid), s1)"
  proof -
    from join_request_sent_body [OF j] obtain code c
      where b: "body = Some code" and c: "lookup_code s code = Some c" by blast
    have "joinCodes s1 = map (\<lambda>d. if jc_id d = jc_id c then inc_usage d else d) (joinCodes s)"
      using join_request_sent(9) [OF j [unfolded b] c] lookup_code_after_inc(1) [OF d c] by blast
    moreover have "c \<in> set (joinCodes s)" using findOne_SomeD [OF c] by blast
    ultimately show ?thesis using b c by blast
  qed
  then show ?thesis using join_request_failure_unchanged [of s now studentId studentName body e s1]
    by blast
qed

theorem usage_incremented_once_on_new_request_witness:
  "join_request ex_enrolled_db 1000 1 ''Alice'' (Some ''OLD001'') = (Inl AlreadyEnrolled, ex_enrolled_db)
   \<and> distinct (map jc_id (joinCodes ex_db))
   \<and> fst (join_request ex_db 1000 1 ''Alice'' (Some ''old001'')) = Inr (RequestSent 1)
   \<and> map jc_usageCount (joinCodes ex_db) = [0]
   \<and> map jc_usageCount (joinCodes (snd (join_request ex_db 1000 1 ''Alice'' (Some ''old001'')))) = [1]"
proof -
  let ?j = "join_request ex_db 1000 1 ''Alice'' (Some ''old001'')"
  have a: "fst (join_request ex_enrolled_db 1000 1 ''Alice'' (Some ''OLD001'')) = Inl AlreadyEnrolled"
    by (simp add: ex_enrolled_db_def ex_simps)
  then have a': "join_request ex_enrolled_db 1000 1 ''Alice'' (Some ''OLD001'')
      = (Inl AlreadyEnrolled, snd (join_request ex_enrolled_db 1000 1 ''Alice'' (Some ''OLD001'')))"
    by (metis prod.collapse)
  have d: "distinct (map jc_id (joinCodes ex_db))" by (simp add: ex_db_def)
  have j: "?j = (Inr (RequestSent 1), snd ?j)" by (simp add: ex_simps)
  have u: "map jc_usageCount (joinCodes ex_db) = [0]" by (simp add: ex_db_def)
  from usage_incremented_once_on_new_request [where s = ex_enrolled_db and now = 1000
      and studentId = 1 and studentName = "''Alice''" and body = "Some ''OLD001''"
      and e = AlreadyEnrolled
      and ?s1.0 = "snd (join_request ex_enrolled_db 1000 1 ''Alice'' (Some ''OLD001''))"] a'
  have b: "snd (join_request ex_enrolled_db 1000 1 ''Alice'' (Some ''OLD001'')) = ex_enrolled_db"
    by blast
  from usage_incremented_once_on_new_request [where s = ex_db and now = 1000
      and studentId = 1 and studentName = "''Alice''" and body = "Some ''old001''"
      and rid = 1 and ?s1.0 = "snd ?j"] d j
  obtain c where cin: "c \<in> set (joinCodes ex_db)"
    and m: "joinCodes (snd ?j) = map (\<lambda>d. if jc_id d = jc_id c then inc_usage d else d) (joinCodes ex_db)"
    by blast
  from cin have "c = hd (joinCodes ex_db)" by (simp add: ex_db_def)
  with m have "map jc_usageCount (joinCodes (snd ?j)) = [1]" by (simp add: ex_db_def)
  moreover have "fst ?j = Inr (RequestSent 1)" using j by (metis fst_conv)
  ultimately show ?thesis using a' b d u by simp
qed

text \<open>
  C10. A join request that is answered with the reactivation of the student's inactive
  enrollment has added one to the usage count of the code it was made with, and has
  left every other join code, and every other field of that code, as it was: the same
  change as when a new request is created.
\<close>

theorem usage_incremented_once_on_reactivation:
  "distinct (map jc_id (joinCodes s))
   \<and> join_request s now studentId studentName body = (Inr Rejoined, s1)
   \<longrightarrow> (\<exists>code c e. body = Some code \<and> lookup_code s code = Some c \<and> c \<in> set (joinCodes s)
         \<and> lookup_enrollment s (jc_classId c) studentId = Some e \<and> \<not> cs_isActive e
         \<and> joinCodes s1 = map (\<lambda>d. if jc_id d = jc_id c then inc_usage d else d) (joinCodes s))"
proof (intro impI, elim conjE)
  assume d: "distinct (map jc_id (joinCodes s))"
    and j: "join_request s now studentId studentName body = (Inr Rejoined, s1)"
  from join_request_rejoined [OF j] obtain code c and st :: account and e
    where b: "body = Some code" and c: "lookup_code s code = Some c"
      and e: "lookup_enrollment s (jc_classId c) studentId = Some e" "\<not> cs_isActive e"
      and s1: "s1 = reactivate_enrollment s now studentId studentName st c e"
    by blast
  have "joinCodes s1 = findByIdAndUpdate jc_id (jc_id c) inc_usage (joinCodes s)"
    by (simp add: s1 reactivate_joinCodes)
  then have "joinCodes s1 = map (\<lambda>d. if jc_id d = jc_id c then inc_usage d else d) (joinCodes s)"
    using lookup_code_after_inc(1) [OF d c] by blast
  moreover have "c \<in> set (joinCodes s)" using findOne_SomeD [OF c] by blast
  ultimately show "\<exists>code c e. body = Some code \<and> lookup_code s code = Some c \<and> c \<in> set (joinCodes s)
         \<and> lookup_enrollment s (jc_classId c) studentId = Some e \<and> \<not> cs_isActive e
         \<and> joinCodes s1 = map (\<lambda>d. if jc_id d = jc_id c then inc_usage d else d) (joinCodes s)"
    using b c e by blast
qed

theorem usage_incremented_once_on_reactivation_witness:
  "distinct (map jc_id (joinCodes ex_inactive_db))
   \<and> fst (join_request ex_inactive_db 1000 1 ''Alice'' (Some ''old001'')) = Inr Rejoined
   \<and> map jc_usageCount (joinCodes ex_inactive_db) = [0]
   \<and> map jc_usageCount (joinCodes (snd (join_request ex_inactive_db 1000 1 ''Alice'' (Some ''old001''))))
       = [1]"
proof -
  let ?j = "join_request ex_inactive_db 1000 1 ''Alice'' (Some ''old001'')"
  have d: "distinct (map jc_id (joinCodes ex_inactive_db))"
    by (simp add: ex_inactive_db_def ex_db_def)
  have j: "?j = (Inr Rejoined, snd ?j)" by (simp add: ex_inactive_db_def ex_simps)
  have u: "map jc_usageCount (joinCodes ex_inactive_db) = [0]"
    by (simp add: ex_inactive_db_def ex_db_def)
  from usage_incremented_once_on_reactivation [where s = ex_inactive_db and now = 1000
      and studentId = 1 and studentName = "''Alice''" and body = "Some ''old001''"
      and ?s1.0 = "snd ?j"] d j
  obtain c where cin: "c \<in> set (joinCodes ex_inactive_db)"
    and m: "joinCodes (snd ?j) =
          map (\<lambda>d. if jc_id d = jc_id c then inc_usage d else d) (joinCodes ex_inactive_db)"
    by blast
  from cin have "c = hd (joinCodes ex_inactive_db)" by (simp add: ex_inactive_db_def ex_db_def)
  with m have "map jc_usageCount (joinCodes (snd ?j)) = [1]"
    by (simp add: ex_inactive_db_def ex_db_def)
  moreover have "fst ?j = Inr Rejoined" using j by (metis fst_conv)
  ultimately show ?thesis using d u by simp
qed

subsection \<open>Reactivation of an enrollment\<close>









subsection \<open>Pending and rejected join requests\<close>








subsection \<open>Approval of a join request\<close>

lemma resolve_not_found:
  assumes "lookup_pending s requestId classId = None"
  shows "resolve_join_request s now teacherId classId requestId ''approve''
           = (Inl (if lookup_class s classId teacherId = None then ClassNotFound
                   else RequestNotFound), s)"
  using assms by (simp add: resolve_join_request_def split: option.splits)

lemma resolve_approve_unfold:
  assumes "lookup_class s classId teacherId = Some cd"
    and "lookup_pending s requestId classId = Some r"
  shows "resolve_join_request s now teacherId classId requestId ''approve'' =
    (case lookup_enrollment s classId (jr_studentId r) of
       Some e \<Rightarrow>
         if cs_isActive e then (Inl StudentAlreadyEnrolled, approve s now teacherId r)
         else (Inr ActionApproved,
               finish_approval
                 (s\<lparr>classStudents := findByIdAndUpdate cs_id (cs_id e)
                       (reactivated now (jr_studentName r) (jr_studentEnrollment r))
                       (classStudents s)\<rparr>)
                 now teacherId classId r)
     | None \<Rightarrow>
         (Inr ActionApproved,
          finish_approval
            (s\<lparr>classStudents := classStudents s @
                  [\<lparr>cs_id = new_id (map cs_id (classStudents s)), cs_classId = classId,
                    cs_studentId = jr_studentId r, cs_studentName = jr_studentName r,
                    cs_studentEnrollment = jr_studentEnrollment r, cs_enrolledAt = now,
                    cs_isActive = True\<rparr>]\<rparr>)
            now teacherId classId r))"
  using assms by (simp add: resolve_join_request_def split: option.splits)

lemma approve_fields:
  assumes "distinct (map jr_id (joinRequests s))"
  shows "joinRequests (approve s now t r) =
           map (\<lambda>x. if jr_id x = jr_id r then approved now t x else x) (joinRequests s)"
    and "classStudents (approve s now t r) = classStudents s"
    and "classes (approve s now t r) = classes s"
  using updateOne_distinct_ids [OF assms]
  by (simp_all add: approve_def findByIdAndUpdate_def)

lemma finish_approval_fields:
  assumes "distinct (map jr_id (joinRequests s))" and "distinct (map c_id (classes s))"
  shows "joinRequests (finish_approval s now t k r) =
           map (\<lambda>x. if jr_id x = jr_id r then approved now t x else x) (joinRequests s)"
    and "classStudents (finish_approval s now t k r) = classStudents s"
    and "classes (finish_approval s now t k r) =
           map (\<lambda>c. if c_id c = k
                     then c\<lparr>c_studentCount := active_students s k, c_updatedAt := now\<rparr>
                     else c) (classes s)"
  using updateOne_distinct_ids [OF assms(1)] updateOne_distinct_ids [OF assms(2)]
  by (simp_all add: finish_approval_def approve_def findByIdAndUpdate_def Let_def)

lemma approval_effect:
  assumes cd: "lookup_class s classId teacherId = Some cd"
    and r: "lookup_pending s requestId classId = Some r"
    and dr: "distinct (map jr_id (joinRequests s))"
    and dc: "distinct (map c_id (classes s))"
    and de: "distinct (map cs_id (classStudents s))"
    and na: "\<forall>e. lookup_enrollment s classId (jr_studentId r) = Some e \<longrightarrow> \<not> cs_isActive e"
    and s1: "s1 = snd (resolve_join_request s now teacherId classId requestId ''approve'')"
  shows "fst (resolve_join_request s now teacherId classId requestId ''approve'') = Inr ActionApproved"
    and "joinRequests s1 =
           map (\<lambda>x. if jr_id x = requestId then approved now teacherId x else x) (joinRequests s)"
    and "approved now teacherId r \<in> set (joinRequests s1)"
    and "\<exists>e\<in>set (classStudents s1). cs_classId e = classId \<and> cs_studentId e = jr_studentId r
            \<and> cs_isActive e"
    and "classes s1 = map (\<lambda>c. if c_id c = classId
                     then c\<lparr>c_studentCount := active_students s1 classId, c_updatedAt := now\<rparr>
                     else c) (classes s)"
    and "\<forall>c\<in>set (classes s1). c_id c = classId \<longrightarrow> c_studentCount c = active_students s1 classId"
    and "\<exists>c\<in>set (classes s1). c_id c = classId"
proof -
  let ?res = "resolve_join_request s now teacherId classId requestId ''approve''"
  from findOne_SomeD [OF r] have rin: "r \<in> set (joinRequests s)" and rid: "jr_id r = requestId"
    by auto
  from findOne_SomeD [OF cd] have cin: "cd \<in> set (classes s)" and cid: "c_id cd = classId"
    by auto
  obtain s' where res: "?res = (Inr ActionApproved, finish_approval s' now teacherId classId r)"
    and jr': "joinRequests s' = joinRequests s" and cl': "classes s' = classes s"
    and en': "\<exists>e\<in>set (classStudents s'). cs_classId e = classId
                \<and> cs_studentId e = jr_studentId r \<and> cs_isActive e"
  proof (cases "lookup_enrollment s classId (jr_studentId r)")
    case None
    let ?s' = "s\<lparr>classStudents := classStudents s @
                  [\<lparr>cs_id = new_id (map cs_id (classStudents s)), cs_classId = classId,
                    cs_studentId = jr_studentId r, cs_studentName = jr_studentName r,
                    cs_studentEnrollment = jr_studentEnrollment r, cs_enrolledAt = now,
                    cs_isActive = True\<rparr>]\<rparr>"
    have "?res = (Inr ActionApproved, finish_approval ?s' now teacherId classId r)"
      using resolve_approve_unfold [OF cd r] None by simp
    moreover have "joinRequests ?s' = joinRequests s" "classes ?s' = classes s" by simp_all
    moreover have "\<exists>e\<in>set (classStudents ?s'). cs_classId e = classId
                \<and> cs_studentId e = jr_studentId r \<and> cs_isActive e" by simp
    ultimately show ?thesis by (rule that)
  next
    case (Some e)
    with na have ina: "\<not> cs_isActive e" by blast
    let ?f = "reactivated now (jr_studentName r) (jr_studentEnrollment r)"
    let ?s' = "s\<lparr>classStudents := findByIdAndUpdate cs_id (cs_id e) ?f (classStudents s)\<rparr>"
    from findOne_SomeD [OF Some] have ein: "e \<in> set (classStudents s)"
      and ep: "cs_classId e = classId" "cs_studentId e = jr_studentId r" by auto
    have m: "classStudents ?s' = map (\<lambda>x. if cs_id x = cs_id e then ?f x else x) (classStudents s)"
      using updateOne_distinct_ids [OF de] by (simp add: findByIdAndUpdate_def)
    have "?f e \<in> set (classStudents ?s')" unfolding m using ein by force
    then have ex: "\<exists>e\<in>set (classStudents ?s'). cs_classId e = classId
                \<and> cs_studentId e = jr_studentId r \<and> cs_isActive e"
      using ep by (intro bexI [of _ "?f e"]) simp_all
    have "?res = (Inr ActionApproved, finish_approval ?s' now teacherId classId r)"
      using resolve_approve_unfold [OF cd r] Some ina by simp
    moreover have "joinRequests ?s' = joinRequests s" "classes ?s' = classes s" by simp_all
    ultimately show ?thesis using ex by (rule that)
  qed
  from res have s1': "s1 = finish_approval s' now teacherId classId r" by (simp add: s1)
  have dr': "distinct (map jr_id (joinRequests s'))" and dc': "distinct (map c_id (classes s'))"
    using dr dc by (simp_all add: jr' cl')
  note ff = finish_approval_fields [OF dr' dc', of now teacherId classId r]
  show "fst ?res = Inr ActionApproved" by (simp add: res)
  show jq: "joinRequests s1 =
           map (\<lambda>x. if jr_id x = requestId then approved now teacherId x else x) (joinRequests s)"
    by (simp add: s1' ff(1) jr' rid)
  show "approved now teacherId r \<in> set (joinRequests s1)"
    unfolding jq using rin rid by force
  show "\<exists>e\<in>set (classStudents s1). cs_classId e = classId \<and> cs_studentId e = jr_studentId r
            \<and> cs_isActive e"
    using en' by (simp add: s1' ff(2))
  have cs1: "classStudents s1 = classStudents s'" by (simp add: s1' ff(2))
  show cq: "classes s1 = map (\<lambda>c. if c_id c = classId
                     then c\<lparr>c_studentCount := active_students s1 classId, c_updatedAt := now\<rparr>
                     else c) (classes s)"
    by (simp add: s1' ff(3) ff(2) cl')
  show "\<forall>c\<in>set (classes s1). c_id c = classId \<longrightarrow> c_studentCount c = active_students s1 classId"
  proof (intro ballI impI)
    fix c assume c: "c \<in> set (classes s1)" and k: "c_id c = classId"
    let ?n = "active_students s1 classId"
    from c obtain x where "x \<in> set (classes s)"
      and x: "c = (if c_id x = classId then x\<lparr>c_studentCount := ?n, c_updatedAt := now\<rparr> else x)"
      unfolding cq by auto
    show "c_studentCount c = ?n"
    proof (cases "c_id x = classId")
      case True
      with x show ?thesis by simp
    next
      case False
      with x k show ?thesis by simp
    qed
  qed
  have "cd\<lparr>c_studentCount := active_students s1 classId, c_updatedAt := now\<rparr> \<in> set (classes s1)"
    unfolding cq using cin cid by (auto simp: image_iff intro!: bexI [of _ cd])
  then show "\<exists>c\<in>set (classes s1). c_id c = classId"
    using cid by (intro bexI [of _ "cd\<lparr>c_studentCount := active_students s1 classId, c_updatedAt := now\<rparr>"]) simp_all
qed

lemma approval_already_enrolled:
  assumes cd: "lookup_class s classId teacherId = Some cd"
    and r: "lookup_pending s requestId classId = Some r"
    and dr: "distinct (map jr_id (joinRequests s))"
    and e: "lookup_enrollment s classId (jr_studentId r) = Some e" "cs_isActive e"
  shows "resolve_join_request s now teacherId classId requestId ''approve'' =
           (Inl StudentAlreadyEnrolled,
            s\<lparr>joinRequests :=
                map (\<lambda>x. if jr_id x = requestId then approved now teacherId x else x)
                  (joinRequests s)\<rparr>)"
proof -
  from findOne_SomeD [OF r] have rid: "jr_id r = requestId" by auto
  have "approve s now teacherId r = s\<lparr>joinRequests :=
                map (\<lambda>x. if jr_id x = requestId then approved now teacherId x else x)
                  (joinRequests s)\<rparr>"
    using updateOne_distinct_ids [OF dr] by (simp add: approve_def findByIdAndUpdate_def rid)
  then show ?thesis using resolve_approve_unfold [OF cd r] e by simp
qed

text \<open>
  C2, as the spec has it, fails on the code: Alice's request is pending while she is
  already enrolled and active, and the student counter of the class (0) is behind.
  Approving the request marks it approved and leaves her enrolled, but the handler
  answers that the student is already enrolled and does not count: the class has one
  active enrollment row and its counter is still 0.
\<close>

theorem approve_counter_counterexample:
  "map jr_status (joinRequests ex_stale_db) = [Pending]
   \<and> map jr_status (joinRequests (snd (resolve_join_request ex_stale_db 1000 10 100 1 ''approve'')))
       = [Approved]
   \<and> map cs_classId (classStudents (snd (resolve_join_request ex_stale_db 1000 10 100 1 ''approve'')))
       = [100]
   \<and> map cs_isActive (classStudents (snd (resolve_join_request ex_stale_db 1000 10 100 1 ''approve'')))
       = [True]
   \<and> map c_id (classes (snd (resolve_join_request ex_stale_db 1000 10 100 1 ''approve''))) = [100]
   \<and> map c_studentCount (classes (snd (resolve_join_request ex_stale_db 1000 10 100 1 ''approve'')))
       = [0]"
  by (simp add: ex_stale_db_def ex_enrolled_db_def ex_simps)

text \<open>
  C2, amended. The caller's class and the pending request are found. When the student
  has no active enrollment row in the class, approval is accepted: the request, and no
  other, becomes approved; the student has an active enrollment row in the class; and
  the student counter of the class is the number of active enrollment rows of the class
  in the database the call leaves behind. When the student already has an active row,
  the request still becomes approved, but the call answers \<open>StudentAlreadyEnrolled\<close>
  and touches neither the rows nor the counter. When no pending request with that
  identifier is in the class, the call answers with status 404 and writes nothing.
\<close>

theorem approve_pending_request:
  "(lookup_class s classId teacherId = Some cd \<and> lookup_pending s requestId classId = Some r
      \<and> distinct (map jr_id (joinRequests s)) \<and> distinct (map c_id (classes s))
      \<and> distinct (map cs_id (classStudents s))
    \<longrightarrow> ((\<forall>e. lookup_enrollment s classId (jr_studentId r) = Some e \<longrightarrow> \<not> cs_isActive e)
          \<and> s1 = snd (resolve_join_request s now teacherId classId requestId ''approve'')
          \<longrightarrow> fst (resolve_join_request s now teacherId classId requestId ''approve'')
                = Inr ActionApproved
            \<and> joinRequests s1 =
                map (\<lambda>x. if jr_id x = requestId then approved now teacherId x else x) (joinRequests s)
            \<and> approved now teacherId r \<in> set (joinRequests s1)
            \<and> (\<exists>e\<in>set (classStudents s1). cs_classId e = classId
                  \<and> cs_studentId e = jr_studentId r \<and> cs_isActive e)
            \<and> (\<forall>c\<in>set (classes s1). c_id c = classId
                  \<longrightarrow> c_studentCount c = active_students s1 classId)
            \<and> (\<exists>c\<in>set (classes s1). c_id c = classId))
      \<and> (\<forall>e. lookup_enrollment s classId (jr_studentId r) = Some e \<and> cs_isActive e
          \<longrightarrow> resolve_join_request s now teacherId classId requestId ''approve'' =
                (Inl StudentAlreadyEnrolled,
                 s\<lparr>joinRequests :=
                     map (\<lambda>x. if jr_id x = requestId then approved now teacherId x else x)
                       (joinRequests s)\<rparr>)))
   \<and> (lookup_pending s requestId classId = None
    \<longrightarrow> snd (resolve_join_request s now teacherId classId requestId ''approve'') = s
      \<and> (\<exists>err. fst (resolve_join_request s now teacherId classId requestId ''approve'') = Inl err
               \<and> http_status err = 404))"
proof -
  let ?res = "resolve_join_request s now teacherId classId requestId ''approve''"
  have a: "fst ?res = Inr ActionApproved
            \<and> joinRequests s1 =
                map (\<lambda>x. if jr_id x = requestId then approved now teacherId x else x) (joinRequests s)
            \<and> approved now teacherId r \<in> set (joinRequests s1)
            \<and> (\<exists>e\<in>set (classStudents s1). cs_classId e = classId
                  \<and> cs_studentId e = jr_studentId r \<and> cs_isActive e)
            \<and> (\<forall>c\<in>set (classes s1). c_id c = classId
                  \<longrightarrow> c_studentCount c = active_students s1 classId)
            \<and> (\<exists>c\<in>set (classes s1). c_id c = classId)"
    if "lookup_class s classId teacherId = Some cd" "lookup_pending s requestId classId = Some r"
      "distinct (map jr_id (joinRequests s))" "distinct (map c_id (classes s))"
      "distinct (map cs_id (classStudents s))"
      "\<forall>e. lookup_enrollment s classId (jr_studentId r) = Some e \<longrightarrow> \<not> cs_isActive e"
      "s1 = snd ?res"
    using approval_effect(1-4,6,7) [OF that] by (intro conjI)
  have b: "?res = (Inl StudentAlreadyEnrolled,
                 s\<lparr>joinRequests :=
                     map (\<lambda>x. if jr_id x = requestId then approved now teacherId x else x)
                       (joinRequests s)\<rparr>)"
    if "lookup_class s classId teacherId = Some cd" "lookup_pending s requestId classId = Some r"
      "distinct (map jr_id (joinRequests s))"
      "lookup_enrollment s classId (jr_studentId r) = Some e" "cs_isActive e" for e
    using that by (rule approval_already_enrolled)
  have c: "snd ?res = s \<and> (\<exists>err. fst ?res = Inl err \<and> http_status err = 404)"
    if "lookup_pending s requestId classId = None"
    using resolve_not_found [OF that, of now teacherId] by simp
  have ab: "lookup_class s classId teacherId = Some cd \<and> lookup_pending s requestId classId = Some r
      \<and> distinct (map jr_id (joinRequests s)) \<and> distinct (map c_id (classes s))
      \<and> distinct (map cs_id (classStudents s))
    \<longrightarrow> ((\<forall>e. lookup_enrollment s classId (jr_studentId r) = Some e \<longrightarrow> \<not> cs_isActive e)
          \<and> s1 = snd ?res
          \<longrightarrow> fst ?res = Inr ActionApproved
            \<and> joinRequests s1 =
                map (\<lambda>x. if jr_id x = requestId then approved now teacherId x else x) (joinRequests s)
            \<and> approved now teacherId r \<in> set (joinRequests s1)
            \<and> (\<exists>e\<in>set (classStudents s1). cs_classId e = classId
                  \<and> cs_studentId e = jr_studentId r \<and> cs_isActive e)
            \<and> (\<forall>c\<in>set (classes s1). c_id c = classId
                  \<longrightarrow> c_studentCount c = active_students s1 classId)
            \<and> (\<exists>c\<in>set (classes s1). c_id c = classId))
      \<and> (\<forall>e. lookup_enrollment s classId (jr_studentId r) = Some e \<and> cs_isActive e
          \<longrightarrow> ?res =
                (Inl StudentAlreadyEnrolled,
                 s\<lparr>joinRequests :=
                     map (\<lambda>x. if jr_id x = requestId then approved now teacherId x else x)
                       (joinRequests s)\<rparr>))"
  proof (intro impI)
    assume "lookup_class s classId teacherId = Some cd \<and> lookup_pending s requestId classId = Some r
      \<and> distinct (map jr_id (joinRequests s)) \<and> distinct (map c_id (classes s))
      \<and> distinct (map cs_id (classStudents s))"
    then have h: "lookup_class s classId teacherId = Some cd"
      "lookup_pending s requestId classId = Some r"
      "distinct (map jr_id (joinRequests s))" "distinct (map c_id (classes s))"
      "distinct (map cs_id (classStudents s))"
      by blast+
    have 1: "(\<forall>e. lookup_enrollment s classId (jr_studentId r) = Some e \<longrightarrow> \<not> cs_isActive e)
          \<and> s1 = snd ?res
          \<longrightarrow> fst ?res = Inr ActionApproved
            \<and> joinRequests s1 =
                map (\<lambda>x. if jr_id x = requestId then approved now teacherId x else x) (joinRequests s)
            \<and> approved now teacherId r \<in> set (joinRequests s1)
            \<and> (\<exists>e\<in>set (classStudents s1). cs_classId e = classId
                  \<and> cs_studentId e = jr_studentId r \<and> cs_isActive e)
            \<and> (\<forall>c\<in>set (classes s1). c_id c = classId
                  \<longrightarrow> c_studentCount c = active_students s1 classId)
            \<and> (\<exists>c\<in>set (classes s1). c_id c = classId)"
    proof (intro impI, elim conjE)
      assume "\<forall>e. lookup_enrollment s classId (jr_studentId r) = Some e \<longrightarrow> \<not> cs_isActive e"
        "s1 = snd ?res"
      with h show "fst ?res = Inr ActionApproved
            \<and> joinRequests s1 =
                map (\<lambda>x. if jr_id x = requestId then approved now teacherId x else x) (joinRequests s)
            \<and> approved now teacherId r \<in> set (joinRequests s1)
            \<and> (\<exists>e\<in>set (classStudents s1). cs_classId e = classId
                  \<and> cs_studentId e = jr_studentId r \<and> cs_isActive e)
            \<and> (\<forall>c\<in>set (classes s1). c_id c = classId
                  \<longrightarrow> c_studentCount c = active_students s1 classId)
            \<and> (\<exists>c\<in>set (classes s1). c_id c = classId)"
        by (rule a)
    qed
    have 2: "\<forall>e. lookup_enrollment s classId (jr_studentId r) = Some e \<and> cs_isActive e
          \<longrightarrow> ?res =
                (Inl StudentAlreadyEnrolled,
                 s\<lparr>joinRequests :=
                     map (\<lambda>x. if jr_id x = requestId then approved now teacherId x else x)
                       (joinRequests s)\<rparr>)"
    proof (intro allI impI, elim conjE)
      fix e
      assume "lookup_enrollment s classId (jr_studentId r) = Some e" "cs_isActive e"
      with h(1-3) show "?res =
                (Inl StudentAlreadyEnrolled,
                 s\<lparr>joinRequests :=
                     map (\<lambda>x. if jr_id x = requestId then approved now teacherId x else x)
                       (joinRequests s)\<rparr>)"
        by (rule b)
    qed
    from 1 2 show "((\<forall>e. lookup_enrollment s classId (jr_studentId r) = Some e \<longrightarrow> \<not> cs_isActive e)
          \<and> s1 = snd ?res
          \<longrightarrow> fst ?res = Inr ActionApproved
            \<and> joinRequests s1 =
                map (\<lambda>x. if jr_id x = requestId then approved now teacherId x else x) (joinRequests s)
            \<and> approved now teacherId r \<in> set (joinRequests s1)
            \<and> (\<exists>e\<in>set (classStudents s1). cs_classId e = classId
                  \<and> cs_studentId e = jr_studentId r \<and> cs_isActive e)
            \<and> (\<forall>c\<in>set (classes s1). c_id c = classId
                  \<longrightarrow> c_studentCount c = active_students s1 classId)
            \<and> (\<exists>c\<in>set (classes s1). c_id c = classId))
      \<and> (\<forall>e. lookup_enrollment s classId (jr_studentId r) = Some e \<and> cs_isActive e
          \<longrightarrow> ?res =
                (Inl StudentAlreadyEnrolled,
                 s\<lparr>joinRequests :=
                     map (\<lambda>x. if jr_id x = requestId then approved now teacherId x else x)
                       (joinRequests s)\<rparr>))"
      by (rule conjI)
  qed
  from c have c': "lookup_pending s requestId classId = None
    \<longrightarrow> snd ?res = s \<and> (\<exists>err. fst ?res = Inl err \<and> http_status err = 404)"
    by (rule impI)
  from ab c' show ?thesis by (rule conjI)
qed

theorem approve_pending_request_witness:
  "lookup_class ex_pending_db 100 10 = Some (hd (classes ex_pending_db))
   \<and> lookup_pending ex_pending_db 7 100 = Some (hd (joinRequests ex_pending_db))
   \<and> distinct (map jr_id (joinRequests ex_pending_db))
   \<and> distinct (map c_id (classes ex_pending_db))
   \<and> distinct (map cs_id (classStudents ex_pending_db))
   \<and> lookup_enrollment ex_pending_db 100 2 = None
   \<and> fst (resolve_join_request ex_pending_db 1000 10 100 7 ''approve'') = Inr ActionApproved
   \<and> map jr_status (joinRequests (snd (resolve_join_request ex_pending_db 1000 10 100 7 ''approve'')))
       = [Approved]
   \<and> map cs_studentId (classStudents (snd (resolve_join_request ex_pending_db 1000 10 100 7 ''approve'')))
       = [1, 2]
   \<and> map cs_isActive (classStudents (snd (resolve_join_request ex_pending_db 1000 10 100 7 ''approve'')))
       = [True, True]
   \<and> map c_studentCount (classes ex_pending_db) = [0]
   \<and> map c_studentCount (classes (snd (resolve_join_request ex_pending_db 1000 10 100 7 ''approve'')))
       = [2]
   \<and> lookup_pending ex_stale_db 1 100 = Some (hd (joinRequests ex_stale_db))
   \<and> lookup_enrollment ex_stale_db 100 1 = Some (hd (classStudents ex_stale_db))
   \<and> cs_isActive (hd (classStudents ex_stale_db))
   \<and> fst (resolve_join_request ex_stale_db 1000 10 100 1 ''approve'') = Inl StudentAlreadyEnrolled
   \<and> lookup_pending ex_pending_db 99 100 = None
   \<and> resolve_join_request ex_pending_db 1000 10 100 99 ''approve''
       = (Inl RequestNotFound, ex_pending_db)"
proof -
  let ?p = ex_pending_db
  let ?q = ex_stale_db
  let ?res = "resolve_join_request ?p 1000 10 100 7 ''approve''"
  note defs = ex_pending_db_def ex_stale_db_def ex_enrolled_db_def ex_db_def findOne_def
  have a1: "lookup_class ?p 100 10 = Some (hd (classes ?p))" by (simp add: defs)
  have a2: "lookup_pending ?p 7 100 = Some (hd (joinRequests ?p))" by (simp add: defs)
  have a3: "distinct (map jr_id (joinRequests ?p))" by (simp add: defs)
  have a4: "distinct (map c_id (classes ?p))" by (simp add: defs)
  have a5: "distinct (map cs_id (classStudents ?p))" by (simp add: defs)
  have a6: "lookup_enrollment ?p 100 2 = None" by (simp add: defs)
  have a6': "\<forall>e. lookup_enrollment ?p 100 (jr_studentId (hd (joinRequests ?p))) = Some e
               \<longrightarrow> \<not> cs_isActive e"
    by (simp add: defs)
  have P: "lookup_class ?p 100 10 = Some (hd (classes ?p))
      \<and> lookup_pending ?p 7 100 = Some (hd (joinRequests ?p))
      \<and> distinct (map jr_id (joinRequests ?p)) \<and> distinct (map c_id (classes ?p))
      \<and> distinct (map cs_id (classStudents ?p))"
    using a1 a2 a3 a4 a5 by (intro conjI)
  have R: "(\<forall>e. lookup_enrollment ?p 100 (jr_studentId (hd (joinRequests ?p))) = Some e
               \<longrightarrow> \<not> cs_isActive e) \<and> snd ?res = snd ?res"
    using a6' by simp
  note T1 = approve_pending_request [where s = ?p and classId = 100 and teacherId = 10
      and requestId = 7 and now = 1000 and cd = "hd (classes ?p)"
      and r = "hd (joinRequests ?p)" and ?s1.0 = "snd ?res"]
  note Q = T1 [THEN conjunct1, THEN mp, OF P, THEN conjunct1, THEN mp, OF R]
  note r1 = Q [THEN conjunct1]
  note r2 = Q [THEN conjunct2, THEN conjunct1]
  note r5 = Q [THEN conjunct2, THEN conjunct2, THEN conjunct2, THEN conjunct2, THEN conjunct1]
  have e1: "map jr_status (joinRequests (snd ?res)) = [Approved]"
    unfolding r2 by (simp add: defs)
  have e2: "map cs_studentId (classStudents (snd ?res)) = [1, 2]" by (simp add: ex_pending_db_def ex_enrolled_db_def ex_simps)
  have e3: "map cs_isActive (classStudents (snd ?res)) = [True, True]"
    by (simp add: ex_pending_db_def ex_enrolled_db_def ex_simps)
  have e4: "map c_id (classes (snd ?res)) = [100]" by (simp add: ex_pending_db_def ex_enrolled_db_def ex_simps)
  have e5: "active_students (snd ?res) 100 = 2" by (simp add: ex_pending_db_def ex_enrolled_db_def ex_simps)
  have e6: "map c_studentCount (classes ?p) = [0]" by (simp add: defs)
  have e7: "map c_studentCount (classes (snd ?res)) = [2]"
  proof -
    from e4 obtain c where c: "classes (snd ?res) = [c]" and "c_id c = 100" by auto
    with r5 e5 have "c_studentCount c = 2" by simp
    with c show ?thesis by simp
  qed
  have b1: "lookup_class ?q 100 10 = Some (hd (classes ?q))" by (simp add: defs)
  have b2: "lookup_pending ?q 1 100 = Some (hd (joinRequests ?q))" by (simp add: defs)
  have b3: "distinct (map jr_id (joinRequests ?q))" "distinct (map c_id (classes ?q))"
    "distinct (map cs_id (classStudents ?q))" by (simp_all add: defs)
  have b4: "lookup_enrollment ?q 100 1 = Some (hd (classStudents ?q))" by (simp add: defs)
  have b4': "lookup_enrollment ?q 100 (jr_studentId (hd (joinRequests ?q)))
               = Some (hd (classStudents ?q)) \<and> cs_isActive (hd (classStudents ?q))"
    by (simp add: defs)
  have b5: "cs_isActive (hd (classStudents ?q))" by (simp add: defs)
  have P2: "lookup_class ?q 100 10 = Some (hd (classes ?q))
      \<and> lookup_pending ?q 1 100 = Some (hd (joinRequests ?q))
      \<and> distinct (map jr_id (joinRequests ?q)) \<and> distinct (map c_id (classes ?q))
      \<and> distinct (map cs_id (classStudents ?q))"
    using b1 b2 b3 by (intro conjI)
  note T2 = approve_pending_request [where s = ?q and classId = 100 and teacherId = 10
      and requestId = 1 and now = 1000 and cd = "hd (classes ?q)"
      and r = "hd (joinRequests ?q)"]
  note Q2 = T2 [THEN conjunct1, THEN mp, OF P2, THEN conjunct2, THEN spec, THEN mp, OF b4']
  note f1 = fst_of_pair [OF Q2]
  have c1: "lookup_pending ?p 99 100 = None" by (simp add: defs)
  note T3 = approve_pending_request [where s = ?p and classId = 100 and teacherId = 10
      and requestId = 99 and now = 1000]
  note Q3 = T3 [THEN conjunct2, THEN mp, OF c1]
  have g1: "fst (resolve_join_request ?p 1000 10 100 99 ''approve'') = Inl RequestNotFound"
    by (simp add: ex_pending_db_def ex_enrolled_db_def ex_simps)
  have g2: "resolve_join_request ?p 1000 10 100 99 ''approve'' = (Inl RequestNotFound, ?p)"
    using g1 Q3 [THEN conjunct1] by (metis prod.collapse)
  show ?thesis
    using a1 a2 a3 a4 a5 a6 r1 e1 e2 e3 e6 e7 b2 b4 b5 f1 c1 g2 by (intro conjI)
qed

subsection \<open>Passwords\<close>

lemma signup_stores_password:
  assumes "signup s body = (Inr sess, s1)"
  shows "if sb_userType body = ''teacher''
         then teachers s1 = teachers s @ [last (teachers s1)] \<and> students s1 = students s
              \<and> a_password (last (teachers s1)) = sb_password body
         else students s1 = students s @ [last (students s1)] \<and> teachers s1 = teachers s
              \<and> a_password (last (students s1)) = sb_password body"
  using assms
  by (auto simp: signup_def Let_def split: option.splits if_splits)

lemma reset_stores_password:
  assumes f: "find_by_reset_token s now token = Some (coll, user)"
    and d: "distinct (map a_id (accounts_of coll s))"
    and r: "reset_password s now token newPassword confirmNewPassword = (Inr (), s2)"
  shows "accounts_of coll s2 =
           map (\<lambda>d. if a_id d = a_id user
                     then d\<lparr>a_password := newPassword, a_resetPasswordToken := None,
                            a_resetPasswordTokenExpires := None\<rparr>
                     else d) (accounts_of coll s)"
    and "user\<lparr>a_password := newPassword, a_resetPasswordToken := None,
               a_resetPasswordTokenExpires := None\<rparr> \<in> set (accounts_of coll s2)"
proof -
  let ?f = "\<lambda>d. d\<lparr>a_password := newPassword, a_resetPasswordToken := None,
                    a_resetPasswordTokenExpires := None\<rparr>"
  have s2: "s2 = (case coll of
                StudentCollection \<Rightarrow>
                  s\<lparr>students := save_new_password newPassword user (students s)\<rparr>
              | TeacherCollection \<Rightarrow>
                  s\<lparr>teachers := save_new_password newPassword user (teachers s)\<rparr>)"
    using r f by (auto simp: reset_password_def split: if_splits)
  show m: "accounts_of coll s2 = map (\<lambda>d. if a_id d = a_id user then ?f d else d) (accounts_of coll s)"
    using updateOne_distinct_ids [OF d]
    by (cases coll) (simp_all add: s2 save_new_password_def findByIdAndUpdate_def)
  have "user \<in> set (accounts_of coll s)"
    using f findOne_SomeD [of "has_reset_token now token" _ user]
    by (cases coll) (auto simp: find_by_reset_token_def split: option.splits)
  then show "?f user \<in> set (accounts_of coll s2)"
    unfolding m by (auto simp: image_iff intro!: bexI [of _ user])
qed

lemma login_compares_password:
  assumes "login_user s body = Inr user"
  shows "(\<exists>sess. login s body = Inr sess) \<longleftrightarrow> a_password user = lb_password body"
    and "a_password user \<noteq> lb_password body \<Longrightarrow> login s body = Inl WrongPassword"
  using assms by (auto simp: login_def)

text \<open>
  C9. Passwords are stored and compared as they are submitted. An accepted signup has
  appended one account, to the teachers or to the students, whose password is the
  submitted string. An accepted password reset has set the password of the account
  that holds the token to the submitted string (and cleared the token), and has changed
  no other account of that collection. And when the login lookup finds an account, the
  login is accepted exactly when the stored password equals the submitted one, and
  answers \<open>WrongPassword\<close> otherwise.
\<close>

theorem plain_text_credentials:
  "(signup s body = (Inr sess, s1)
    \<longrightarrow> (if sb_userType body = ''teacher''
         then teachers s1 = teachers s @ [last (teachers s1)] \<and> students s1 = students s
              \<and> a_password (last (teachers s1)) = sb_password body
         else students s1 = students s @ [last (students s1)] \<and> teachers s1 = teachers s
              \<and> a_password (last (students s1)) = sb_password body))
   \<and> (find_by_reset_token s now token = Some (coll, user)
      \<and> distinct (map a_id (accounts_of coll s))
      \<and> reset_password s now token newPassword confirmNewPassword = (Inr (), s2)
    \<longrightarrow> accounts_of coll s2 =
           map (\<lambda>d. if a_id d = a_id user
                     then d\<lparr>a_password := newPassword, a_resetPasswordToken := None,
                            a_resetPasswordTokenExpires := None\<rparr>
                     else d) (accounts_of coll s)
        \<and> user\<lparr>a_password := newPassword, a_resetPasswordToken := None,
                 a_resetPasswordTokenExpires := None\<rparr> \<in> set (accounts_of coll s2))
   \<and> (login_user s lbody = Inr account
    \<longrightarrow> ((\<exists>sess. login s lbody = Inr sess) \<longleftrightarrow> a_password account = lb_password lbody)
      \<and> (a_password account \<noteq> lb_password lbody \<longrightarrow> login s lbody = Inl WrongPassword))"
proof (intro conjI impI; (elim conjE)?)
  assume "signup s body = (Inr sess, s1)"
  then show "if sb_userType body = ''teacher''
         then teachers s1 = teachers s @ [last (teachers s1)] \<and> students s1 = students s
              \<and> a_password (last (teachers s1)) = sb_password body
         else students s1 = students s @ [last (students s1)] \<and> teachers s1 = teachers s
              \<and> a_password (last (students s1)) = sb_password body"
    by (rule signup_stores_password)
next
  assume "find_by_reset_token s now token = Some (coll, user)"
    "distinct (map a_id (accounts_of coll s))"
    "reset_password s now token newPassword confirmNewPassword = (Inr (), s2)"
  then show "accounts_of coll s2 =
           map (\<lambda>d. if a_id d = a_id user
                     then d\<lparr>a_password := newPassword, a_resetPasswordToken := None,
                            a_resetPasswordTokenExpires := None\<rparr>
                     else d) (accounts_of coll s)"
    by (rule reset_stores_password(1))
next
  assume "find_by_reset_token s now token = Some (coll, user)"
    "distinct (map a_id (accounts_of coll s))"
    "reset_password s now token newPassword confirmNewPassword = (Inr (), s2)"
  then show "user\<lparr>a_password := newPassword, a_resetPasswordToken := None,
                 a_resetPasswordTokenExpires := None\<rparr> \<in> set (accounts_of coll s2)"
    by (rule reset_stores_password(2))
next
  assume "login_user s lbody = Inr account"
  then show "(\<exists>sess. login s lbody = Inr sess) \<longleftrightarrow> a_password account = lb_password lbody"
    by (rule login_compares_password(1))
next
  assume "login_user s lbody = Inr account" "a_password account \<noteq> lb_password lbody"
  then show "login s lbody = Inl WrongPassword"
    by (rule login_compares_password(2))
qed

theorem plain_text_credentials_witness:
  "fst (signup ex_db ex_signup_body)
     = Inr \<lparr>se_userId = 11, se_userName = ''Dave'', se_userType = ''teacher''\<rparr>
   \<and> map a_email (teachers (snd (signup ex_db ex_signup_body)))
       = [Some ''carol@school.org'', Some ''dave@school.org'']
   \<and> a_password (last (teachers (snd (signup ex_db ex_signup_body)))) = ''Pa55 word''
   \<and> find_by_reset_token ex_reset_db 5000 ''c0ffee''
       = Some (StudentCollection, hd (students ex_reset_db))
   \<and> distinct (map a_id (students ex_reset_db))
   \<and> fst (reset_password ex_reset_db 5000 ''c0ffee'' ''newpass1'' ''newpass1'') = Inr ()
   \<and> map a_password (students (snd (reset_password ex_reset_db 5000 ''c0ffee'' ''newpass1'' ''newpass1'')))
       = [''newpass1'', ''secret2'']
   \<and> login_user ex_db (ex_login_body ''chalk'') = Inr (hd (teachers ex_db))
   \<and> (\<exists>sess. login ex_db (ex_login_body ''chalk'') = Inr sess)
   \<and> login_user ex_db (ex_login_body ''Chalk'') = Inr (hd (teachers ex_db))
   \<and> login ex_db (ex_login_body ''Chalk'') = Inl WrongPassword"
proof -
  let ?su = "signup ex_db ex_signup_body"
  let ?rp = "reset_password ex_reset_db 5000 ''c0ffee'' ''newpass1'' ''newpass1''"
  note str = toLowerCase_def lower_char_def trim_def is_space_def findOne_def new_id_def
  have a1: "?su = (Inr \<lparr>se_userId = 11, se_userName = ''Dave'', se_userType = ''teacher''\<rparr>,
                   snd ?su)"
    by (simp add: signup_def ex_signup_body_def ex_db_def Let_def str)
  have a2: "map a_email (teachers (snd ?su)) = [Some ''carol@school.org'', Some ''dave@school.org'']"
    by (simp add: signup_def ex_signup_body_def ex_db_def Let_def str)
  have a3: "sb_userType ex_signup_body = ''teacher''" "sb_password ex_signup_body = ''Pa55 word''"
    by (simp_all add: ex_signup_body_def)
  have b1: "find_by_reset_token ex_reset_db 5000 ''c0ffee''
       = Some (StudentCollection, hd (students ex_reset_db))"
    by (simp add: find_by_reset_token_def has_reset_token_def ex_reset_db_def findOne_def)
  have b2: "distinct (map a_id (accounts_of StudentCollection ex_reset_db))"
    by (simp add: ex_reset_db_def)
  have b3: "?rp = (Inr (), snd ?rp)"
    by (simp add: reset_password_def b1)
  have c1: "login_user ex_db (ex_login_body ''chalk'') = Inr (hd (teachers ex_db))"
    by (simp add: login_user_def ex_login_body_def ex_db_def str)
  have c2: "login_user ex_db (ex_login_body ''Chalk'') = Inr (hd (teachers ex_db))"
    by (simp add: login_user_def ex_login_body_def ex_db_def str)
  have c3: "a_password (hd (teachers ex_db)) = lb_password (ex_login_body ''chalk'')"
    by (simp add: ex_login_body_def ex_db_def)
  have c4: "a_password (hd (teachers ex_db)) \<noteq> lb_password (ex_login_body ''Chalk'')"
    by (simp add: ex_login_body_def ex_db_def)
  note T1 = plain_text_credentials [where s = ex_db and body = ex_signup_body
      and ?s1.0 = "snd ?su" and now = 5000
      and sess = "\<lparr>se_userId = 11, se_userName = ''Dave'', se_userType = ''teacher''\<rparr>"
      and lbody = "ex_login_body ''chalk''" and account = "hd (teachers ex_db)"]
  note T2 = plain_text_credentials [where s = ex_reset_db and now = 5000
      and token = "''c0ffee''" and coll = StudentCollection
      and user = "hd (students ex_reset_db)" and newPassword = "''newpass1''"
      and confirmNewPassword = "''newpass1''" and ?s2.0 = "snd ?rp"]
  note T3 = plain_text_credentials [where s = ex_db
      and lbody = "ex_login_body ''Chalk''" and account = "hd (teachers ex_db)"]
  have r1: "a_password (last (teachers (snd ?su))) = ''Pa55 word''"
    using T1 [THEN conjunct1, THEN mp, OF a1] a3 by simp
  have P: "find_by_reset_token ex_reset_db 5000 ''c0ffee''
       = Some (StudentCollection, hd (students ex_reset_db))
      \<and> distinct (map a_id (accounts_of StudentCollection ex_reset_db))
      \<and> ?rp = (Inr (), snd ?rp)"
    using b1 b2 b3 by (intro conjI)
  note Q = T2 [THEN conjunct2, THEN conjunct1, THEN mp, OF P, THEN conjunct1]
  have r2: "map a_password (students (snd ?rp)) = [''newpass1'', ''secret2'']"
    using Q by (simp add: ex_reset_db_def)
  have r3: "\<exists>sess. login ex_db (ex_login_body ''chalk'') = Inr sess"
    using T1 [THEN conjunct2, THEN conjunct2, THEN mp, OF c1, THEN conjunct1] c3 by blast
  note r4 = T3 [THEN conjunct2, THEN conjunct2, THEN mp, OF c2, THEN conjunct2, THEN mp, OF c4]
  have b2': "distinct (map a_id (students ex_reset_db))" using b2 by simp
  show ?thesis
    using fst_of_pair [OF a1] a2 r1 b1 b2' fst_of_pair [OF b3] r2 c1 r3 c2 r4
    by (intro conjI)
qed

end
